theory Spec2Isabelle
  imports Complex_Main "HOL-Library.Char_ord" "HOL-Library.List_Lexorder" "HOL-Library.Word"
begin

section \<open>The batch-correction notebook: data model\<close>

text \<open>
  The development follows \<^verbatim>\<open>notebooks/6.2_Batch_Correction.ipynb\<close>. Its code cells are
  straight-line scripts over pandas frames, so every block of assignments becomes a function
  of the values it reads, and the two pieces of shared mutable state (the process-wide numpy
  generator and the frame objects that are updated in place) are passed explicitly.

  Idealisations, used throughout:
  \<^item> a float64 cell is \<open>Some x\<close> for a real \<open>x\<close>, or \<open>None\<close> for NaN; rounding is not modelled;
  \<^item> the numpy generator is the stream of standard normal draws it will hand out, and
    seeding it is a parameter \<open>seed_stream\<close> from seeds to streams; a seed is an unsigned
    32-bit integer, the range \<^verbatim>\<open>np.random.seed\<close> accepts;
  \<^item> counts are natural numbers.
\<close>

subsection \<open>Python values\<close>

datatype pyerr =
    ValueError
  | KeyError string
  | TypeError
  | PatsyError string
  | UnboundLocalError string

text \<open>\<^verbatim>\<open>str(n)\<close> for a non-negative integer, and \<^verbatim>\<open>s.zfill(w)\<close> for a string without sign.\<close>

definition digit_char :: "nat \<Rightarrow> char" where
  "digit_char d = char_of (48 + d)"

function str_nat :: "nat \<Rightarrow> string" where
  "str_nat n = (if n < 10 then [digit_char n] else str_nat (n div 10) @ [digit_char (n mod 10)])"
  by pat_completeness auto
termination
  by (relation "measure id") auto

declare str_nat.simps [simp del]

definition zfill :: "nat \<Rightarrow> string \<Rightarrow> string" where
  "zfill w s = replicate (w - length s) CHR ''0'' @ s"

text \<open>Reading a decimal numeral back; only used to show that labels are pairwise distinct.\<close>

definition digit_val :: "char \<Rightarrow> nat" where
  "digit_val c = of_char c - 48"

definition val_digits :: "string \<Rightarrow> nat" where
  "val_digits s = foldl (\<lambda>a c. 10 * a + digit_val c) 0 s"

text \<open>
  \<^verbatim>\<open>genes = ['Gene_{}'.format(str(i+1).zfill(2)) for i in range(n_genes)]\<close> and
  \<^verbatim>\<open>samples = ['Sample_{}'.format(str(i+1).zfill(2)) for i in range(n_samples)]\<close>.
\<close>

definition gene_label :: "nat \<Rightarrow> string" where
  "gene_label i = ''Gene_'' @ zfill 2 (str_nat (i + 1))"

definition sample_label :: "nat \<Rightarrow> string" where
  "sample_label i = ''Sample_'' @ zfill 2 (str_nat (i + 1))"

definition genes :: "nat \<Rightarrow> string list" where
  "genes n_genes = map gene_label [0..<n_genes]"

definition samples :: "nat \<Rightarrow> string list" where
  "samples n_samples = map sample_label [0..<n_samples]"

text \<open>\<^verbatim>\<open>dict(pairs)\<close>: a later pair overrides an earlier one with the same key.\<close>

definition dict :: "('k \<times> 'v) list \<Rightarrow> ('k \<rightharpoonup> 'v)" where
  "dict kvs = map_of (rev kvs)"

subsection \<open>Frames and their cells\<close>

type_synonym cell = "real option"

definition fadd :: "cell \<Rightarrow> cell \<Rightarrow> cell" where
  "fadd a b = (case (a, b) of (Some x, Some y) \<Rightarrow> Some (x + y) | _ \<Rightarrow> None)"

definition fsub :: "cell \<Rightarrow> cell \<Rightarrow> cell" where
  "fsub a b = (case (a, b) of (Some x, Some y) \<Rightarrow> Some (x - y) | _ \<Rightarrow> None)"

text \<open>A \<^verbatim>\<open>pandas.DataFrame\<close>: row labels, column labels and the cells, row by row.\<close>

record dataframe =
  index :: "string list"
  columns :: "string list"
  cells :: "cell list list"

definition nrows :: "dataframe \<Rightarrow> nat" where
  "nrows df = length (cells df)"

text \<open>The shape every frame of the notebook has: one row per index label, one cell per column.\<close>

definition rectangular :: "dataframe \<Rightarrow> bool" where
  "rectangular df \<longleftrightarrow>
     length (cells df) = length (index df) \<and>
     list_all (\<lambda>row. length row = length (columns df)) (cells df)"

definition mapi2 :: "(nat \<Rightarrow> nat \<Rightarrow> 'a \<Rightarrow> 'b) \<Rightarrow> 'a list list \<Rightarrow> 'b list list" where
  "mapi2 f m = map (\<lambda>i. map (\<lambda>j. f i j (m ! i ! j)) [0..<length (m ! i)]) [0..<length m]"

text \<open>
  \<^verbatim>\<open>pd.DataFrame(zs.reshape(r, c), index=idx, columns=cols)\<close> for a flat array of \<open>r * c\<close>
  values (the only way the notebook calls it, so the reshape cannot fail): row-major.
\<close>

definition DataFrame :: "real list \<Rightarrow> nat \<Rightarrow> nat \<Rightarrow> string list \<Rightarrow> string list \<Rightarrow> dataframe" where
  "DataFrame zs r c idx cols =
     \<lparr>index = idx, columns = cols,
      cells = map (\<lambda>i. map (\<lambda>j. Some (zs ! (i * c + j))) [0..<c]) [0..<r]\<rparr>"

text \<open>
  \<^verbatim>\<open>df.iloc[r0:r1, c0:c1] += v\<close> with a scalar \<open>v\<close>: positional, in place. The notebook's
  slices \<^verbatim>\<open>:h\<close> and \<^verbatim>\<open>h:\<close> are \<open>(0, h)\<close> and \<open>(h, n)\<close>.
\<close>

definition iloc_iadd :: "nat \<times> nat \<Rightarrow> nat \<times> nat \<Rightarrow> real \<Rightarrow> dataframe \<Rightarrow> dataframe" where
  "iloc_iadd rs cs v df =
     df\<lparr>cells := mapi2 (\<lambda>i j x.
        if fst rs \<le> i \<and> i < snd rs \<and> fst cs \<le> j \<and> j < snd cs then fadd x (Some v) else x)
        (cells df)\<rparr>"

subsection \<open>Shared state: the generator and the frame objects\<close>

type_synonym gauss_stream = "nat \<Rightarrow> real"

record world =
  rng :: gauss_stream
  heap :: "dataframe list"

text \<open>\<^verbatim>\<open>np.random.seed(sd)\<close> replaces the generator's state, whatever it was.\<close>

definition np_random_seed :: "(32 word \<Rightarrow> gauss_stream) \<Rightarrow> 32 word \<Rightarrow> world \<Rightarrow> world" where
  "np_random_seed seed_stream sd w = w\<lparr>rng := seed_stream sd\<rparr>"

text \<open>\<^verbatim>\<open>np.random.randn(k)\<close>: the next \<open>k\<close> draws; the generator moves on.\<close>

definition randn :: "nat \<Rightarrow> world \<Rightarrow> real list \<times> world" where
  "randn k w = (map (rng w) [0..<k], w\<lparr>rng := (\<lambda>i. rng w (i + k))\<rparr>)"

text \<open>
  \<^verbatim>\<open>np.random.normal(size=k, scale=s)\<close> (mean 0): each value is \<open>s\<close> times a standard
  normal draw. A negative size raises \<^verbatim>\<open>ValueError\<close> and draws nothing.
\<close>

definition normal :: "int \<Rightarrow> real \<Rightarrow> world \<Rightarrow> (pyerr + real list) \<times> world" where
  "normal k s w =
     (if k < 0 then (Inl ValueError, w)
      else (Inr (map (\<lambda>i. s * rng w i) [0..<nat k]), w\<lparr>rng := (\<lambda>i. rng w (i + nat k))\<rparr>))"

text \<open>A new frame object gets the next free address; an in-place update rewrites one object.\<close>

definition alloc :: "dataframe \<Rightarrow> world \<Rightarrow> nat \<times> world" where
  "alloc df w = (length (heap w), w\<lparr>heap := heap w @ [df]\<rparr>)"

definition inplace :: "nat \<Rightarrow> (dataframe \<Rightarrow> dataframe) \<Rightarrow> world \<Rightarrow> world" where
  "inplace a f w = w\<lparr>heap := (heap w)[a := f (heap w ! a)]\<rparr>"

definition deref :: "nat \<times> world \<Rightarrow> dataframe" where
  "deref p = heap (snd p) ! fst p"

section \<open>Synthetic data generator\<close>

text \<open>
  The first code cell up to the biological variance:
  \<^verbatim>\<open>
  np.random.seed(2016)
  half_genes = int(n_genes/2)
  half_samples = int(n_samples/2)
  size = n_samples * n_genes
  data = pd.DataFrame(np.random.randn(size).reshape(n_samples, n_genes), index=samples, columns=genes)
  data.iloc[:half_samples, :half_genes] += 1
  data.iloc[:half_samples, half_genes:] += -1
  data.iloc[half_samples:, half_genes:] += 1
  data.iloc[half_samples:, :half_genes] += -1
  \<close>
  The seed and the two counts are the cell's parameters. The result is the address bound to
  \<^verbatim>\<open>data\<close> and the world after the cell.
\<close>

definition generate :: "(32 word \<Rightarrow> gauss_stream) \<Rightarrow> 32 word \<Rightarrow> nat \<Rightarrow> nat \<Rightarrow> world \<Rightarrow> nat \<times> world" where
  "generate seed_stream sd n_samples n_genes w0 =
     (let w1 = np_random_seed seed_stream sd w0;
          half_genes = n_genes div 2;
          half_samples = n_samples div 2;
          size = n_samples * n_genes;
          (zs, w2) = randn size w1;
          (data, w3) = alloc (DataFrame zs n_samples n_genes (samples n_samples) (genes n_genes)) w2;
          w4 = inplace data (iloc_iadd (0, half_samples) (0, half_genes) 1) w3;
          w5 = inplace data (iloc_iadd (0, half_samples) (half_genes, n_genes) (- 1)) w4;
          w6 = inplace data (iloc_iadd (half_samples, n_samples) (half_genes, n_genes) 1) w5;
          w7 = inplace data (iloc_iadd (half_samples, n_samples) (0, half_genes) (- 1)) w6
      in (data, w7))"

text \<open>The constant each quadrant receives, read off the four in-place additions.\<close>

definition quadrant :: "nat \<Rightarrow> nat \<Rightarrow> nat \<Rightarrow> nat \<Rightarrow> real" where
  "quadrant n_samples n_genes i j =
     (if i < n_samples div 2
      then (if j < n_genes div 2 then 1 else - 1)
      else (if j < n_genes div 2 then - 1 else 1))"

text \<open>
  The matrix the specification describes: the draws of the stream, row by row, each plus its
  quadrant's constant.
\<close>

definition block_design :: "gauss_stream \<Rightarrow> nat \<Rightarrow> nat \<Rightarrow> cell list list" where
  "block_design g n_samples n_genes =
     map (\<lambda>i. map (\<lambda>j. Some (g (i * n_genes + j) + quadrant n_samples n_genes i j)) [0..<n_genes])
       [0..<n_samples]"

text \<open>
  The rest of the first cell that is not plotting set-up:
  \<^verbatim>\<open>
  mouse_groups = pd.Series(dict(zip(data.index,
      (['Mouse_01'] * int(n_samples/2)) + (['Mouse_02'] * int(n_samples/2)))), name="Mouse")
  mouse_to_color = dict(zip(['Mouse_01', 'Mouse_02'], ['lightgrey', 'black']))
  mouse_colors = [mouse_to_color[mouse_groups[x]] for x in samples]
  \<close>
  A series of labels is the map from its index to its values. \<^verbatim>\<open>zip\<close> stops at the
  shorter list; a missing key raises \<^verbatim>\<open>KeyError\<close>, which ends the comprehension.
\<close>

definition mouse_groups :: "dataframe \<Rightarrow> nat \<Rightarrow> (string \<rightharpoonup> string)" where
  "mouse_groups data n_samples =
     dict (zip (index data)
       (replicate (n_samples div 2) ''Mouse_01'' @ replicate (n_samples div 2) ''Mouse_02''))"

definition mouse_to_color :: "string \<rightharpoonup> string" where
  "mouse_to_color = dict (zip [''Mouse_01'', ''Mouse_02''] [''lightgrey'', ''black''])"

definition getitem :: "(string \<rightharpoonup> 'v) \<Rightarrow> string \<Rightarrow> pyerr + 'v" where
  "getitem m k = (case m k of None \<Rightarrow> Inl (KeyError k) | Some v \<Rightarrow> Inr v)"

fun comprehension :: "('a \<Rightarrow> pyerr + 'b) \<Rightarrow> 'a list \<Rightarrow> pyerr + 'b list" where
  "comprehension f [] = Inr []"
| "comprehension f (x # xs) =
     (case f x of
        Inl e \<Rightarrow> Inl e
      | Inr y \<Rightarrow> (case comprehension f xs of Inl e \<Rightarrow> Inl e | Inr ys \<Rightarrow> Inr (y # ys)))"

definition mouse_colors :: "dataframe \<Rightarrow> nat \<Rightarrow> pyerr + string list" where
  "mouse_colors data n_samples =
     comprehension
       (\<lambda>x. case getitem (mouse_groups data n_samples) x of
               Inl e \<Rightarrow> Inl e
             | Inr g \<Rightarrow> getitem mouse_to_color g)
       (samples n_samples)"

section \<open>Batch-noise injection\<close>

text \<open>
  \<^verbatim>\<open>
  batch1_samples = samples[::2]
  batch2_samples = data.index.difference(batch1_samples)
  batches = pd.Series(dict((x, 'Batch_01') if x in batch1_samples else (x, "Batch_02")
                           for x in samples), name="Batch")
  noisy_data = data.copy()
  noisy_data.ix[batch1_samples, :-2] += np.random.normal(size=n_genes-2, scale=2)
  noisy_data.ix[batch2_samples, :-2] += np.random.normal(size=n_genes-2, scale=2)
  \<close>
  \<^verbatim>\<open>Index.difference\<close> returns the labels of the index that are not in the other
  collection, unique and sorted.
\<close>

fun every_second :: "'a list \<Rightarrow> 'a list" where
  "every_second [] = []"
| "every_second [x] = [x]"
| "every_second (x # y # xs) = x # every_second xs"

definition index_difference :: "string list \<Rightarrow> string list \<Rightarrow> string list" where
  "index_difference idx other = sort (remdups (filter (\<lambda>x. x \<notin> set other) idx))"

definition batch1_samples :: "nat \<Rightarrow> string list" where
  "batch1_samples n_samples = every_second (samples n_samples)"

definition batch2_samples :: "dataframe \<Rightarrow> nat \<Rightarrow> string list" where
  "batch2_samples data n_samples = index_difference (index data) (batch1_samples n_samples)"

definition batches :: "nat \<Rightarrow> (string \<rightharpoonup> string)" where
  "batches n_samples =
     dict (map (\<lambda>x. if x \<in> set (batch1_samples n_samples) then (x, ''Batch_01'') else (x, ''Batch_02''))
             (samples n_samples))"

text \<open>
  \<^verbatim>\<open>df.ix[labels, :-2] += vec\<close>: the rows whose label is listed, all columns but the last
  two, in place; the vector is added to each selected row. In the notebook the vector has
  \<open>n_genes - 2\<close> entries, one per selected column (for fewer than two genes the draw before
  it has already raised).
\<close>

definition ix_iadd :: "string list \<Rightarrow> real list \<Rightarrow> dataframe \<Rightarrow> dataframe" where
  "ix_iadd labels vec df =
     df\<lparr>cells := mapi2 (\<lambda>i j x.
        if index df ! i \<in> set labels \<and> j < length (columns df) - 2
        then fadd x (Some (vec ! j)) else x)
        (cells df)\<rparr>"

text \<open>
  The noise block proper. It is given the address bound to \<^verbatim>\<open>data\<close> and returns the
  address bound to \<^verbatim>\<open>noisy_data\<close>, or the exception that ended the cell, and the world
  as the cell left it.
\<close>

definition add_technical_noise :: "nat \<Rightarrow> nat \<Rightarrow> nat \<Rightarrow> world \<Rightarrow> (pyerr + nat) \<times> world" where
  "add_technical_noise data n_samples n_genes w0 =
     (let (noisy_data, w1) = alloc (heap w0 ! data) w0
      in case normal (int n_genes - 2) 2 w1 of
           (Inl e, w2) \<Rightarrow> (Inl e, w2)
         | (Inr v1, w2) \<Rightarrow>
             (let w3 = inplace noisy_data (ix_iadd (batch1_samples n_samples) v1) w2
              in case normal (int n_genes - 2) 2 w3 of
                   (Inl e, w4) \<Rightarrow> (Inl e, w4)
                 | (Inr v2, w4) \<Rightarrow>
                     (Inr noisy_data,
                      inplace noisy_data
                        (ix_iadd (batch2_samples (heap w0 ! data) n_samples) v2) w4)))"

section \<open>Covariate-noise injection\<close>

text \<open>
  \<^verbatim>\<open>metadata['RIN'] = np.arange(len(samples)) + 0.5\<close>: one value per row of the metadata.
  The rows are taken in the order of \<^verbatim>\<open>samples\<close>; that is their order when pandas keeps the
  order in which a dictionary was built, and also when it sorts the keys, as long as the
  labels sort in numeric order (up to 99 samples).
\<close>

definition RIN :: "nat \<Rightarrow> real list" where
  "RIN n_samples = map (\<lambda>i. real i + 1 / 2) [0..<length (samples n_samples)]"

text \<open>\<^verbatim>\<open>np.ones(k)\<close>; a negative length raises. \<^verbatim>\<open>xs[1:-1]\<close> drops the first and last.\<close>

definition np_ones :: "int \<Rightarrow> pyerr + real list" where
  "np_ones k = (if k < 0 then Inl ValueError else Inr (replicate (nat k) 1))"

definition slice_1_m1 :: "'a list \<Rightarrow> 'a list" where
  "slice_1_m1 xs = butlast (tl xs)"

text \<open>
  \<^verbatim>\<open>df.reindex(columns=cols)\<close>: a new frame with the given columns; a column the old frame
  does not have is NaN. \<^verbatim>\<open>df.fillna(v)\<close>: a new frame with every NaN replaced.
\<close>

definition reindex_columns :: "string list \<Rightarrow> dataframe \<Rightarrow> dataframe" where
  "reindex_columns cols df =
     \<lparr>index = index df, columns = cols,
      cells = map (\<lambda>row. map (\<lambda>c. case map_of (zip (columns df) row) c of
                                       None \<Rightarrow> None | Some x \<Rightarrow> x) cols) (cells df)\<rparr>"

definition fillna :: "real \<Rightarrow> dataframe \<Rightarrow> dataframe" where
  "fillna v df =
     df\<lparr>cells := map (map (\<lambda>x. case x of None \<Rightarrow> Some v | Some y \<Rightarrow> Some y)) (cells df)\<rparr>"

text \<open>
  \<^verbatim>\<open>
  rin_noise = metadata['RIN'].apply(lambda x: pd.Series(np.ones(n_genes-2)*x, index=genes[1:-1]))
  rin_noise = rin_noise.reindex(columns=genes)
  rin_noise = rin_noise.fillna(0)
  \<close>
  The lambda runs once per sample, so \<^verbatim>\<open>np.ones\<close> raises at the first sample when there
  are fewer than two genes; otherwise its \<open>n_genes - 2\<close> values match the \<open>n_genes - 2\<close> labels.
  With no sample at all \<^verbatim>\<open>apply\<close> returns an empty series, whose \<^verbatim>\<open>reindex\<close> rejects
  the \<^verbatim>\<open>columns\<close> keyword with a \<^verbatim>\<open>TypeError\<close>. Each step makes a new frame object; the
  result is the address bound to \<^verbatim>\<open>rin_noise\<close> at the end.
\<close>

definition make_rin_noise :: "nat \<Rightarrow> nat \<Rightarrow> world \<Rightarrow> (pyerr + nat) \<times> world" where
  "make_rin_noise n_samples n_genes w0 =
     (case comprehension
             (\<lambda>x. case np_ones (int n_genes - 2) of
                     Inl e \<Rightarrow> Inl e
                   | Inr ones \<Rightarrow> Inr (map (\<lambda>u. Some (u * x)) ones))
             (RIN n_samples) of
        Inl e \<Rightarrow> (Inl e, w0)
      | Inr rows \<Rightarrow>
          if rows = [] then (Inl TypeError, w0)
          else
            (let (a1, w1) = alloc \<lparr>index = samples n_samples,
                                   columns = slice_1_m1 (genes n_genes), cells = rows\<rparr> w0;
                 (a2, w2) = alloc (reindex_columns (genes n_genes) (heap w1 ! a1)) w1;
                 (a3, w3) = alloc (fillna 0 (heap w2 ! a2)) w2
             in (Inr a3, w3)))"

text \<open>
  Arithmetic between two frames aligns them on their labels: the result carries the union of
  the row labels and of the column labels (in the operands' order when they agree, sorted
  otherwise), and a cell that one operand lacks is NaN.
\<close>

definition union_labels :: "string list \<Rightarrow> string list \<Rightarrow> string list" where
  "union_labels a b = (if a = b then a else sort (remdups (a @ b)))"

definition loc :: "dataframe \<Rightarrow> string \<Rightarrow> string \<Rightarrow> cell" where
  "loc df r c =
     (case map_of (zip (index df) (cells df)) r of
        None \<Rightarrow> None
      | Some row \<Rightarrow> (case map_of (zip (columns df) row) c of None \<Rightarrow> None | Some x \<Rightarrow> x))"

definition df_binop :: "(cell \<Rightarrow> cell \<Rightarrow> cell) \<Rightarrow> dataframe \<Rightarrow> dataframe \<Rightarrow> dataframe" where
  "df_binop f a b =
     (let idx = union_labels (index a) (index b);
          cols = union_labels (columns a) (columns b)
      in \<lparr>index = idx, columns = cols,
          cells = map (\<lambda>r. map (\<lambda>c. f (loc a r c) (loc b r c)) cols) idx\<rparr>)"

text \<open>
  \<^verbatim>\<open>df.mean()\<close> and \<^verbatim>\<open>df.std()\<close>: per column, over the cells that are not NaN. The mean
  of no value is NaN; the standard deviation divides by one less than the number of values
  and is NaN for fewer than two. Both are taken over the reals: for a column of equal values
  the standard deviation is exactly zero here, where floating point may leave a few units in
  the last place, so nothing is stated below about such a column.
\<close>

definition column :: "dataframe \<Rightarrow> nat \<Rightarrow> cell list" where
  "column df j = map (\<lambda>row. row ! j) (cells df)"

definition present :: "cell list \<Rightarrow> real list" where
  "present c = concat (map (\<lambda>x. case x of None \<Rightarrow> [] | Some y \<Rightarrow> [y]) c)"

definition mean :: "real list \<Rightarrow> real" where
  "mean xs = sum_list xs / real (length xs)"

definition col_mean :: "cell list \<Rightarrow> cell" where
  "col_mean c = (let xs = present c in if xs = [] then None else Some (mean xs))"

definition col_std :: "cell list \<Rightarrow> cell" where
  "col_std c =
     (let xs = present c
      in if length xs < 2 then None
         else Some (sqrt (sum_list (map (\<lambda>x. (x - mean xs)\<^sup>2) xs) / real (length xs - 1))))"

definition df_mean :: "dataframe \<Rightarrow> cell list" where
  "df_mean df = map (\<lambda>j. col_mean (column df j)) [0..<length (columns df)]"

definition df_std :: "dataframe \<Rightarrow> cell list" where
  "df_std df = map (\<lambda>j. col_std (column df j)) [0..<length (columns df)]"

text \<open>
  A frame minus, or over, a series of per-column values (here always the frame's own
  \<^verbatim>\<open>mean()\<close> or \<^verbatim>\<open>std()\<close>, so the series is aligned with the columns). Cells have no
  infinity: a quotient whose divisor is zero is NaN here whatever the numerator, which is
  what floating point gives for \<open>0 / 0\<close> only. The properties below use the division only
  where the divisor is not zero.
\<close>

definition fdiv :: "cell \<Rightarrow> cell \<Rightarrow> cell" where
  "fdiv a b =
     (case (a, b) of (Some x, Some y) \<Rightarrow> if y = 0 then None else Some (x / y) | _ \<Rightarrow> None)"

definition sub_series :: "dataframe \<Rightarrow> cell list \<Rightarrow> dataframe" where
  "sub_series df s = df\<lparr>cells := mapi2 (\<lambda>i j x. fsub x (s ! j)) (cells df)\<rparr>"

definition div_series :: "dataframe \<Rightarrow> cell list \<Rightarrow> dataframe" where
  "div_series df s = df\<lparr>cells := mapi2 (\<lambda>i j x. fdiv x (s ! j)) (cells df)\<rparr>"

text \<open>
  \<^verbatim>\<open>
  rin_batchy_data = data + rin_noise
  rin_batchy_data = (rin_batchy_data - rin_batchy_data.mean())/rin_batchy_data.std()
  \<close>
  Three new frame objects; the name ends bound to the last.
\<close>

definition add_rin_noise :: "nat \<Rightarrow> nat \<Rightarrow> world \<Rightarrow> nat \<times> world" where
  "add_rin_noise data rin_noise w0 =
     (let (summed, w1) = alloc (df_binop fadd (heap w0 ! data) (heap w0 ! rin_noise)) w0;
          (centred, w2) = alloc (sub_series (heap w1 ! summed) (df_mean (heap w1 ! summed))) w1;
          (rin_batchy_data, w3) = alloc (div_series (heap w2 ! centred) (df_std (heap w2 ! summed))) w2
      in (rin_batchy_data, w3))"

text \<open>The value the last frame has, as a function of the sum \<^verbatim>\<open>data + rin_noise\<close>.\<close>

definition standardize :: "dataframe \<Rightarrow> dataframe" where
  "standardize df = div_series (sub_series df (df_mean df)) (df_std df)"

text \<open>
  The scenario of the specification in which the injection is skipped: the noise frame holds
  zero everywhere, labelled like the notebook's.
\<close>

definition zero_noise :: "nat \<Rightarrow> nat \<Rightarrow> dataframe" where
  "zero_noise n_samples n_genes =
     \<lparr>index = samples n_samples, columns = genes n_genes,
      cells = replicate n_samples (replicate n_genes (Some 0))\<rparr>"

section \<open>Regression-based covariate correction\<close>

text \<open>
  \<^verbatim>\<open>sklearn.linear_model.LinearRegression\<close> is a library the notebook calls; the model is
  its documented behaviour for one predictor: ordinary least squares with an intercept,
  fitted for every column of the response at once. With a predictor that does not vary the
  minimum-norm solution has slope zero. \<^verbatim>\<open>fit\<close> rejects a response with a NaN, with no row
  or no column, or with a row count other than the predictor's, by \<^verbatim>\<open>ValueError\<close>.
\<close>

definition ols_slope :: "real list \<Rightarrow> real list \<Rightarrow> real" where
  "ols_slope xs ys =
     (let sxx = sum_list (map (\<lambda>x. (x - mean xs)\<^sup>2) xs);
          sxy = sum_list (map2 (\<lambda>x y. (x - mean xs) * (y - mean ys)) xs ys)
      in if sxx = 0 then 0 else sxy / sxx)"

definition ols_intercept :: "real list \<Rightarrow> real list \<Rightarrow> real" where
  "ols_intercept xs ys = mean ys - ols_slope xs ys * mean xs"

record linear_model =
  coef :: "real list"
  intercept :: "real list"

definition has_nan :: "dataframe \<Rightarrow> bool" where
  "has_nan df = list_ex (list_ex (\<lambda>x. x = None)) (cells df)"

definition LinearRegression_fit :: "real list \<Rightarrow> dataframe \<Rightarrow> pyerr + linear_model" where
  "LinearRegression_fit X Y =
     (if nrows Y = 0 \<or> length (columns Y) = 0 \<or> length X \<noteq> nrows Y \<or> has_nan Y
      then Inl ValueError
      else Inr \<lparr>coef = map (\<lambda>j. ols_slope X (map the (column Y j))) [0..<length (columns Y)],
                intercept = map (\<lambda>j. ols_intercept X (map the (column Y j)))
                              [0..<length (columns Y)]\<rparr>)"

definition LinearRegression_predict :: "linear_model \<Rightarrow> real list \<Rightarrow> real list list" where
  "LinearRegression_predict m X = map (\<lambda>x. map2 (\<lambda>a b. a + b * x) (intercept m) (coef m)) X"

text \<open>
  \<^verbatim>\<open>pd.DataFrame(array2d, columns=cols, index=idx)\<close>: the labels must fit the array's shape.
\<close>

definition DataFrame2d :: "real list list \<Rightarrow> string list \<Rightarrow> string list \<Rightarrow> pyerr + dataframe" where
  "DataFrame2d m idx cols =
     (if length m = length idx \<and> list_all (\<lambda>row. length row = length cols) m
      then Inr \<lparr>index = idx, columns = cols, cells = map (map Some) m\<rparr>
      else Inl ValueError)"

text \<open>
  \<^verbatim>\<open>
  regressor.fit(metadata['RIN'].to_frame(), rin_batchy_data)
  rin_dependent_data = pd.DataFrame(regressor.predict(metadata['RIN'].to_frame()),
                                    columns=genes, index=samples)
  rin_corrected_data = rin_batchy_data - rin_dependent_data
  \<close>
  The result is the pair of addresses bound to \<^verbatim>\<open>rin_dependent_data\<close> and
  \<^verbatim>\<open>rin_corrected_data\<close>.
\<close>

definition regress_out_rin :: "nat \<Rightarrow> nat \<Rightarrow> nat \<Rightarrow> world \<Rightarrow> (pyerr + nat \<times> nat) \<times> world" where
  "regress_out_rin rin_batchy_data n_samples n_genes w0 =
     (case LinearRegression_fit (RIN n_samples) (heap w0 ! rin_batchy_data) of
        Inl e \<Rightarrow> (Inl e, w0)
      | Inr regressor \<Rightarrow>
          (case DataFrame2d (LinearRegression_predict regressor (RIN n_samples))
                  (samples n_samples) (genes n_genes) of
             Inl e \<Rightarrow> (Inl e, w0)
           | Inr predicted \<Rightarrow>
               (let (rin_dependent_data, w1) = alloc predicted w0;
                    (rin_corrected_data, w2) =
                       alloc (df_binop fsub (heap w1 ! rin_batchy_data)
                                (heap w1 ! rin_dependent_data)) w1
                in (Inr (rin_dependent_data, rin_corrected_data), w2))))"

text \<open>
  The value the fitted line of gene \<open>j\<close> takes at sample \<open>i\<close>, for a predictor \<open>X\<close> and a response
  frame without NaN: \<^verbatim>\<open>predict\<close> computes \<open>intercept_[j] + coef_[j] * X[i]\<close>.
\<close>

definition response :: "dataframe \<Rightarrow> nat \<Rightarrow> real list" where
  "response Y j = map the (column Y j)"

definition fitted :: "real list \<Rightarrow> dataframe \<Rightarrow> nat \<Rightarrow> nat \<Rightarrow> real" where
  "fitted X Y i j = ols_intercept X (response Y j) + ols_slope X (response Y j) * X ! i"

text \<open>
  The two frames the specification describes for a response \<open>Y\<close> without NaN: the predicted
  values, and the observed minus the predicted values.
\<close>

definition predicted_frame :: "nat \<Rightarrow> nat \<Rightarrow> dataframe \<Rightarrow> dataframe" where
  "predicted_frame n_samples n_genes Y =
     \<lparr>index = samples n_samples, columns = genes n_genes,
      cells = map (\<lambda>i. map (\<lambda>j. Some (fitted (RIN n_samples) Y i j)) [0..<n_genes]) [0..<n_samples]\<rparr>"

definition corrected_frame :: "nat \<Rightarrow> nat \<Rightarrow> dataframe \<Rightarrow> dataframe" where
  "corrected_frame n_samples n_genes Y =
     \<lparr>index = samples n_samples, columns = genes n_genes,
      cells = map (\<lambda>i. map (\<lambda>j. Some (response Y j ! i - fitted (RIN n_samples) Y i j)) [0..<n_genes])
                [0..<n_samples]\<rparr>"

text \<open>The sum of squared residuals of a line \<open>a + b * x\<close>: what least squares minimises.\<close>

definition sse :: "real list \<Rightarrow> real list \<Rightarrow> real \<Rightarrow> real \<Rightarrow> real" where
  "sse xs ys a b = sum_list (map2 (\<lambda>x y. (y - (a + b * x))\<^sup>2) xs ys)"

section \<open>Batch correction with combat\<close>

text \<open>
  \<^verbatim>\<open>metadata = pd.concat([batches, mouse_groups], axis=1)\<close> is a frame of labels: one
  column per series, \<open>None\<close> where a series has no record for a sample. The wrapper reads it
  as a global, so it is a parameter here. \<^verbatim>\<open>name in metadata\<close> asks whether \<open>name\<close> is a
  column, and is false for \<^verbatim>\<open>None\<close>; \<^verbatim>\<open>metadata[name]\<close> raises \<^verbatim>\<open>KeyError\<close> for a name
  that is not a column.
\<close>

record metaframe =
  m_index :: "string list"
  m_columns :: "(string \<times> string option list) list"

definition in_metadata :: "string option \<Rightarrow> metaframe \<Rightarrow> bool" where
  "in_metadata key md = (case key of None \<Rightarrow> False | Some k \<Rightarrow> k \<in> fst ` set (m_columns md))"

definition getcol :: "metaframe \<Rightarrow> string \<Rightarrow> pyerr + string option list" where
  "getcol md name =
     (case map_of (m_columns md) name of None \<Rightarrow> Inl (KeyError name) | Some vs \<Rightarrow> Inr vs)"

text \<open>\<^verbatim>\<open>'~ {}'.format(keep_constant)\<close>, and \<^verbatim>\<open>df.T\<close>.\<close>

definition format_formula :: "string option \<Rightarrow> string" where
  "format_formula keep_constant =
     ''~ '' @ (case keep_constant of None \<Rightarrow> ''None'' | Some k \<Rightarrow> k)"

definition transpose_df :: "dataframe \<Rightarrow> dataframe" where
  "transpose_df df = \<lparr>index = columns df, columns = index df, cells = transpose (cells df)\<rparr>"

text \<open>
  The head of the wrapper, which binds \<^verbatim>\<open>model\<close>:
  \<^verbatim>\<open>
  def remove_batch_effects_with_combat(batch, keep_constant=None, cluster_on_correlations=False):
      if keep_constant is not None or keep_constant in metadata:
          model = patsy.dmatrix('~ {}'.format(keep_constant), metadata, return_type="dataframe")
      elif keep_constant == 'null' or keep_constant is None:
          model = None
  \<close>
  \<^verbatim>\<open>patsy.dmatrix\<close> is a library function and a parameter here. When neither branch is
  taken the name stays unbound, and its use raises \<^verbatim>\<open>UnboundLocalError\<close>.
\<close>

definition design_model ::
  "(string \<Rightarrow> metaframe \<Rightarrow> pyerr + 'd) \<Rightarrow> metaframe \<Rightarrow> string option \<Rightarrow> pyerr + 'd option" where
  "design_model dmatrix metadata keep_constant =
     (if keep_constant \<noteq> None \<or> in_metadata keep_constant metadata
      then (case dmatrix (format_formula keep_constant) metadata of
              Inl e \<Rightarrow> Inl e
            | Inr model \<Rightarrow> Inr (Some model))
      else if keep_constant = Some ''null'' \<or> keep_constant = None
      then Inr None
      else Inl (UnboundLocalError ''model''))"

text \<open>
  The call that follows:
  \<^verbatim>\<open>
      corrected_data = combat(noisy_data.T, metadata[batch], model)
      corrected_data = corrected_data.T
  \<close>
  \<^verbatim>\<open>combat\<close> is the external correction routine and a parameter here. The rest of the
  function plots; the result of the model is the frame bound to \<^verbatim>\<open>corrected_data\<close>.
\<close>

definition remove_batch_effects_with_combat ::
  "(string \<Rightarrow> metaframe \<Rightarrow> pyerr + 'd) \<Rightarrow>
   (dataframe \<Rightarrow> string option list \<Rightarrow> 'd option \<Rightarrow> pyerr + dataframe) \<Rightarrow>
   metaframe \<Rightarrow> dataframe \<Rightarrow> string \<Rightarrow> string option \<Rightarrow> pyerr + dataframe" where
  "remove_batch_effects_with_combat dmatrix combat metadata noisy_data batch keep_constant =
     (case design_model dmatrix metadata keep_constant of
        Inl e \<Rightarrow> Inl e
      | Inr model \<Rightarrow>
          (case getcol metadata batch of
             Inl e \<Rightarrow> Inl e
           | Inr labels \<Rightarrow>
               (case combat (transpose_df noisy_data) labels model of
                  Inl e \<Rightarrow> Inl e
                | Inr corrected_data \<Rightarrow> Inr (transpose_df corrected_data))))"

text \<open>
  \<^verbatim>\<open>patsy.dmatrix\<close> evaluates every name of the formula first in the data (here the
  metadata) and then in the scope of the call: the caller's local and global variables and
  the built-in names of Python and patsy. The scope is a parameter; a name it binds is bound
  to a sequence of labels or to some other object. A name is an identifier of ASCII letters,
  digits and underscores that is not a keyword of Python.
\<close>

datatype pyval = Labels "string option list" | Opaque

type_synonym scope = "string \<rightharpoonup> pyval"

definition ident_char :: "char \<Rightarrow> bool" where
  "ident_char c =
     (let n = (of_char c :: nat)
      in (65 \<le> n \<and> n \<le> 90) \<or> (97 \<le> n \<and> n \<le> 122) \<or> (48 \<le> n \<and> n \<le> 57) \<or> n = 95)"

definition is_identifier :: "string \<Rightarrow> bool" where
  "is_identifier s \<longleftrightarrow>
     s \<noteq> [] \<and> list_all ident_char s \<and> \<not> (48 \<le> (of_char (hd s) :: nat) \<and> (of_char (hd s) :: nat) \<le> 57)"

definition python_keywords :: "string list" where
  "python_keywords =
     [''False'', ''None'', ''True'', ''and'', ''as'', ''assert'', ''async'', ''await'', ''break'',
      ''class'', ''continue'', ''def'', ''del'', ''elif'', ''else'', ''except'', ''finally'', ''for'',
      ''from'', ''global'', ''if'', ''import'', ''in'', ''is'', ''lambda'', ''nonlocal'', ''not'',
      ''or'', ''pass'', ''raise'', ''return'', ''try'', ''while'', ''with'', ''yield'']"

text \<open>
  The design of a single column of labels under patsy's default treatment coding: rows with
  a missing label are dropped; the labels' distinct values, sorted, are the levels; there is
  an intercept column of ones and one indicator column for every level but the first. A
  column with a single level therefore contributes no column at all.
\<close>

definition levels :: "string option list \<Rightarrow> string list" where
  "levels vs = sort (remdups (concat (map (\<lambda>v. case v of None \<Rightarrow> [] | Some l \<Rightarrow> [l]) vs)))"

definition treatment_design :: "string \<Rightarrow> string list \<Rightarrow> string option list \<Rightarrow> dataframe" where
  "treatment_design name idx vs =
     (let kept = filter (\<lambda>(r, v). v \<noteq> None) (zip idx vs);
          coded = tl (levels vs)
      in \<lparr>index = map fst kept,
          columns = ''Intercept'' # map (\<lambda>l. name @ ''[T.'' @ l @ '']'') coded,
          cells = map (\<lambda>(r, v). Some 1 # map (\<lambda>l. Some (if v = Some l then 1 else 0)) coded)
                    kept\<rparr>)"

text \<open>
  What \<^verbatim>\<open>patsy.dmatrix(formula, metadata, return_type="dataframe")\<close> does, by patsy's
  documentation, for the formulas \<^verbatim>\<open>~ name\<close> with a single name:
  \<^item> a name that is a column of the metadata, or that only the scope binds to as many labels
    as the metadata has rows, gives the treatment-coded design of these labels;
  \<^item> a name bound nowhere raises \<^verbatim>\<open>NameError\<close> when it is evaluated, which patsy reports
    as a \<^verbatim>\<open>PatsyError\<close>.
  Every other case (a formula with operators such as \<^verbatim>\<open>~ Mouse + Batch\<close>, a name bound to
  another kind of object, labels that are all missing or do not match the rows) is outside
  what is modelled: there the result is whatever the parameter \<open>other\<close> says, and nothing
  below depends on it.
\<close>

definition patsy_dmatrix ::
  "(string \<Rightarrow> metaframe \<Rightarrow> pyerr + dataframe) \<Rightarrow> scope \<Rightarrow> string \<Rightarrow> metaframe \<Rightarrow> pyerr + dataframe" where
  "patsy_dmatrix other scope formula md =
     (let name = drop 2 formula
      in if take 2 formula = ''~ '' \<and> is_identifier name \<and> name \<notin> set python_keywords
         then (case map_of (m_columns md) name of
                 Some vs \<Rightarrow>
                   if length vs = length (m_index md) \<and> levels vs \<noteq> []
                   then Inr (treatment_design name (m_index md) vs)
                   else other formula md
               | None \<Rightarrow>
                   (case scope name of
                      None \<Rightarrow> Inl (PatsyError name)
                    | Some (Labels vs) \<Rightarrow>
                        if length vs = length (m_index md) \<and> levels vs \<noteq> []
                        then Inr (treatment_design name (m_index md) vs)
                        else other formula md
                    | Some Opaque \<Rightarrow> other formula md))
         else other formula md)"

section \<open>Closed forms and scenarios of the specification\<close>

text \<open>
  The noise frame the specification describes: the sample's RIN value in every interior gene,
  zero in the first and the last gene.
\<close>

definition rin_noise_frame :: "nat \<Rightarrow> nat \<Rightarrow> dataframe" where
  "rin_noise_frame n_samples n_genes =
     \<lparr>index = samples n_samples, columns = genes n_genes,
      cells = map (\<lambda>i. map (\<lambda>j. Some (if 1 \<le> j \<and> j < n_genes - 1 then real i + 1 / 2 else 0))
                   [0..<n_genes]) [0..<n_samples]\<rparr>"



text \<open>
  The scenario of the specification in which the covariate-noise injection is skipped: the
  generated matrix plus a noise frame of zeros, re-standardised as the cell does, then the
  regression cell. The result is the regression's input and its corrected output.
\<close>

definition skip_injection_run ::
  "(32 word \<Rightarrow> gauss_stream) \<Rightarrow> 32 word \<Rightarrow> nat \<Rightarrow> nat \<Rightarrow> world \<Rightarrow> pyerr + dataframe \<times> dataframe" where
  "skip_injection_run seed_stream sd n_samples n_genes w0 =
     (let (data, w1) = generate seed_stream sd n_samples n_genes w0;
          (rin_noise, w2) = alloc (zero_noise n_samples n_genes) w1;
          (rin_batchy_data, w3) = add_rin_noise data rin_noise w2
      in case regress_out_rin rin_batchy_data n_samples n_genes w3 of
           (Inl e, w4) \<Rightarrow> Inl e
         | (Inr (rin_dependent_data, rin_corrected_data), w4) \<Rightarrow>
             Inr (heap w4 ! rin_batchy_data, heap w4 ! rin_corrected_data))"

section \<open>Properties\<close>

subsection \<open>Frames\<close>

lemma mapi2_length [simp]: "length (mapi2 f m) = length m"
  by (simp add: mapi2_def)

lemma mapi2_row_length [simp]: "i < length m \<Longrightarrow> length (mapi2 f m ! i) = length (m ! i)"
  by (simp add: mapi2_def)

lemma mapi2_nth [simp]:
  "i < length m \<Longrightarrow> j < length (m ! i) \<Longrightarrow> mapi2 f m ! i ! j = f i j (m ! i ! j)"
  by (simp add: mapi2_def)

lemma matrix_eqI:
  assumes "length a = length b"
    and "\<And>i. i < length b \<Longrightarrow> length (a ! i) = length (b ! i)"
    and "\<And>i j. i < length b \<Longrightarrow> j < length (b ! i) \<Longrightarrow> a ! i ! j = b ! i ! j"
  shows "a = b"
proof (rule nth_equalityI)
  show "length a = length b" by (rule assms(1))
next
  fix i assume i: "i < length a"
  with assms(1) have ib: "i < length b" by simp
  show "a ! i = b ! i"
    by (rule nth_equalityI) (use assms(2,3) ib in auto)
qed

subsection \<open>Labels are pairwise distinct\<close>

lemma digit_val_char [simp]: "d < 10 \<Longrightarrow> digit_val (digit_char d) = d"
  by (simp add: digit_val_def digit_char_def)

lemma val_digits_snoc [simp]: "val_digits (s @ [c]) = 10 * val_digits s + digit_val c"
  by (simp add: val_digits_def)

lemma val_digits_str_nat [simp]: "val_digits (str_nat n) = n"
proof (induction n rule: str_nat.induct)
  case (1 n)
  show ?case
  proof (cases "n < 10")
    case True
    then show ?thesis by (subst str_nat.simps) (simp add: val_digits_def)
  next
    case False
    with 1 show ?thesis by (subst str_nat.simps) simp
  qed
qed

lemma digit_val_zero: "digit_val CHR ''0'' = 0"
  by (simp add: digit_val_def)

lemma val_digits_zeros [simp]: "val_digits (replicate k CHR ''0'' @ s) = val_digits s"
proof -
  have "foldl (\<lambda>a c. 10 * a + digit_val c) 0 (replicate k CHR ''0'') = 0"
    by (induction k) (simp_all add: digit_val_zero)
  then show ?thesis by (simp add: val_digits_def)
qed

lemma val_digits_zfill [simp]: "val_digits (zfill w (str_nat n)) = n"
  by (simp add: zfill_def)

lemma sample_label_inj: "inj sample_label"
proof (rule injI)
  fix a b assume "sample_label a = sample_label b"
  then have "zfill 2 (str_nat (a + 1)) = zfill 2 (str_nat (b + 1))"
    by (simp add: sample_label_def)
  then have "val_digits (zfill 2 (str_nat (a + 1))) = val_digits (zfill 2 (str_nat (b + 1)))"
    by (rule arg_cong)
  then show "a = b" by (simp only: val_digits_zfill add_right_cancel)
qed

lemma gene_label_inj: "inj gene_label"
proof (rule injI)
  fix a b assume "gene_label a = gene_label b"
  then have "zfill 2 (str_nat (a + 1)) = zfill 2 (str_nat (b + 1))"
    by (simp add: gene_label_def)
  then have "val_digits (zfill 2 (str_nat (a + 1))) = val_digits (zfill 2 (str_nat (b + 1)))"
    by (rule arg_cong)
  then show "a = b" by (simp only: val_digits_zfill add_right_cancel)
qed

lemma sample_label_eq [simp]: "sample_label a = sample_label b \<longleftrightarrow> a = b"
  using sample_label_inj by (auto dest: injD)

lemma gene_label_eq [simp]: "gene_label a = gene_label b \<longleftrightarrow> a = b"
  using gene_label_inj by (auto dest: injD)

lemma samples_length [simp]: "length (samples n) = n"
  by (simp add: samples_def)

lemma genes_length [simp]: "length (genes n) = n"
  by (simp add: genes_def)

lemma samples_nth [simp]: "i < n \<Longrightarrow> samples n ! i = sample_label i"
  by (simp add: samples_def)

lemma genes_nth [simp]: "j < n \<Longrightarrow> genes n ! j = gene_label j"
  by (simp add: genes_def)

lemma samples_distinct [simp]: "distinct (samples n)"
  by (simp add: samples_def distinct_map inj_on_def)

lemma genes_distinct [simp]: "distinct (genes n)"
  by (simp add: genes_def distinct_map inj_on_def)

lemma sample_label_in_samples [simp]: "sample_label i \<in> set (samples n) \<longleftrightarrow> i < n"
  by (auto simp: samples_def)

lemma gene_label_in_genes [simp]: "gene_label i \<in> set (genes n) \<longleftrightarrow> i < n"
  by (auto simp: genes_def)

subsection \<open>Dictionaries, batches and mouse groups\<close>

lemma dict_zip_nth:
  assumes "distinct ks" "i < length ks" "i < length vs"
  shows "dict (zip ks vs) (ks ! i) = Some (vs ! i)"
proof -
  have d: "distinct (map fst (rev (zip ks vs)))"
    using assms(1) by (simp add: rev_map[symmetric] distinct_rev map_fst_zip_take)
  have "(ks ! i, vs ! i) \<in> set (rev (zip ks vs))"
    using assms(2,3) by (auto simp: set_zip)
  with d show ?thesis unfolding dict_def by (simp only: map_of_is_SomeI)
qed

lemma dict_zip_None:
  assumes "k \<notin> set (take (length vs) ks)"
  shows "dict (zip ks vs) k = None"
proof -
  have "map fst (zip ks vs) = take (length vs) ks"
    by (simp add: map_fst_zip_take min_def)
  with assms have "k \<notin> fst ` set (rev (zip ks vs))"
    by (metis list.set_map set_rev)
  then show ?thesis unfolding dict_def by (simp add: map_of_eq_None_iff)
qed

lemma dict_map_pairs:
  assumes "distinct ks" "k \<in> set ks"
  shows "dict (map (\<lambda>x. if P x then (x, a) else (x, b)) ks) k = Some (if P k then a else b)"
proof -
  let ?kvs = "map (\<lambda>x. if P x then (x, a) else (x, b)) ks"
  have f: "map fst ?kvs = ks" by (induction ks) auto
  have d: "distinct (map fst (rev ?kvs))"
    using assms(1) f by (simp add: rev_map[symmetric] del: map_map)
  have "(k, if P k then a else b) \<in> set (rev ?kvs)"
    using assms(2) by (auto simp: image_iff)
  with d show ?thesis unfolding dict_def by (simp only: map_of_is_SomeI)
qed

lemma every_second_set:
  "set (every_second xs) = {xs ! i | i. i < length xs \<and> even i}"
proof (induction xs rule: every_second.induct)
  case 1
  then show ?case by simp
next
  case (2 x)
  then show ?case by auto
next
  case (3 x y xs)
  have "{(x # y # xs) ! i | i. i < length (x # y # xs) \<and> even i}
        = insert x {xs ! i | i. i < length xs \<and> even i}" (is "?L = ?R")
  proof (intro set_eqI iffI)
    fix v assume "v \<in> ?L"
    then obtain i where i: "v = (x # y # xs) ! i" "i < Suc (Suc (length xs))" "even i" by auto
    show "v \<in> ?R"
    proof (cases i)
      case 0
      with i show ?thesis by simp
    next
      case (Suc k)
      with i obtain m where "k = Suc m" by (cases k) auto
      with Suc i show ?thesis by auto
    qed
  next
    fix v assume "v \<in> ?R"
    then consider "v = x" | i where "v = xs ! i" "i < length xs" "even i" by auto
    then show "v \<in> ?L"
    proof cases
      case 1
      then have "v = (x # y # xs) ! 0 \<and> 0 < length (x # y # xs) \<and> even (0::nat)" by simp
      then show ?thesis by blast
    next
      case 2
      then have "v = (x # y # xs) ! (Suc (Suc i)) \<and> Suc (Suc i) < length (x # y # xs) \<and> even (Suc (Suc i))"
        by simp
      then show ?thesis by blast
    qed
  qed
  with 3 show ?case by simp
qed

lemma sample_in_batch1 [simp]:
  "i < n \<Longrightarrow> sample_label i \<in> set (batch1_samples n) \<longleftrightarrow> even i"
proof -
  assume i: "i < n"
  have "sample_label i \<in> {samples n ! k | k. k < n \<and> even k} \<longleftrightarrow> even i"
  proof
    assume "sample_label i \<in> {samples n ! k | k. k < n \<and> even k}"
    then obtain k where "sample_label i = samples n ! k" "k < n" "even k" by auto
    then show "even i" by simp
  next
    assume "even i"
    with i have "sample_label i = samples n ! i \<and> i < n \<and> even i" by simp
    then show "sample_label i \<in> {samples n ! k | k. k < n \<and> even k}" by blast
  qed
  then show ?thesis by (simp add: batch1_samples_def every_second_set)
qed

lemma batches_sample:
  "i < n \<Longrightarrow> batches n (sample_label i) = Some (if even i then ''Batch_01'' else ''Batch_02'')"
  unfolding batches_def
  by (subst dict_map_pairs) simp_all

lemma mouse_groups_sample:
  assumes "index data = samples n" "i < 2 * (n div 2)"
  shows "mouse_groups data n (sample_label i) =
           Some (if i < n div 2 then ''Mouse_01'' else ''Mouse_02'')"
proof -
  let ?vs = "replicate (n div 2) ''Mouse_01'' @ replicate (n div 2) ''Mouse_02''"
  have i: "i < n" using assms(2) by simp
  have "dict (zip (samples n) ?vs) (samples n ! i) = Some (?vs ! i)"
    using assms(2) i by (intro dict_zip_nth) simp_all
  moreover have "?vs ! i = (if i < n div 2 then ''Mouse_01'' else ''Mouse_02'')"
    using assms(2) by (simp add: nth_append)
  ultimately show ?thesis using i by (simp add: mouse_groups_def assms(1))
qed

lemma mouse_groups_last_odd:
  assumes "index data = samples n" "odd n"
  shows "mouse_groups data n (sample_label (n - 1)) = None"
proof -
  let ?vs = "replicate (n div 2) ''Mouse_01'' @ replicate (n div 2) ''Mouse_02''"
  have len: "length ?vs = n - 1" using assms(2) by (auto elim!: oddE)
  have "take (n - 1) (samples n) = samples (n - 1)"
    by (simp add: samples_def take_map)
  then have "sample_label (n - 1) \<notin> set (take (length ?vs) (samples n))"
    unfolding len by simp
  then show ?thesis unfolding mouse_groups_def assms(1) by (rule dict_zip_None)
qed

subsection \<open>The store\<close>

lemma alloc_fst [simp]: "fst (alloc df w) = length (heap w)"
  by (simp add: alloc_def)

lemma alloc_heap [simp]: "heap (snd (alloc df w)) = heap w @ [df]"
  by (simp add: alloc_def)

lemma alloc_rng [simp]: "rng (snd (alloc df w)) = rng w"
  by (simp add: alloc_def)

lemma inplace_heap [simp]: "heap (inplace a f w) = (heap w)[a := f (heap w ! a)]"
  by (simp add: inplace_def)

lemma inplace_rng [simp]: "rng (inplace a f w) = rng w"
  by (simp add: inplace_def)

subsection \<open>The generated matrix\<close>

lemma flat_index_less: "i < r \<Longrightarrow> j < c \<Longrightarrow> i * c + j < r * (c::nat)"
proof -
  assume i: "i < r" and j: "j < c"
  have "i * c + j < i * c + c" using j by simp
  also have "\<dots> = Suc i * c" by simp
  also have "\<dots> \<le> r * c" using i by (intro mult_le_mono1) simp
  finally show ?thesis .
qed

lemma iloc_iadd_labels [simp]:
  "index (iloc_iadd rs cs v df) = index df" "columns (iloc_iadd rs cs v df) = columns df"
  by (simp_all add: iloc_iadd_def)

text \<open>
  The cell, run on any world, leaves \<^verbatim>\<open>data\<close> bound to a frame that depends on the seed and
  the counts only: the labelled block design over the seeded stream.
\<close>

lemma generate_deref:
  "deref (generate ss sd ns ng w0) =
     \<lparr>index = samples ns, columns = genes ng, cells = block_design (ss sd) ns ng\<rparr>"
proof -
  let ?D = "DataFrame (map (ss sd) [0..<ns * ng]) ns ng (samples ns) (genes ng)"
  let ?F = "iloc_iadd (ns div 2, ns) (0, ng div 2) (- 1)
             (iloc_iadd (ns div 2, ns) (ng div 2, ng) 1
               (iloc_iadd (0, ns div 2) (ng div 2, ng) (- 1)
                 (iloc_iadd (0, ns div 2) (0, ng div 2) 1 ?D)))"
  have d: "deref (generate ss sd ns ng w0) = ?F"
    by (simp add: generate_def deref_def Let_def randn_def np_random_seed_def alloc_def
        inplace_def split_def)
  have lab: "index ?F = samples ns" "columns ?F = genes ng"
    by (simp_all add: DataFrame_def)
  have c: "cells ?F = block_design (ss sd) ns ng"
  proof (rule matrix_eqI)
    show "length (cells ?F) = length (block_design (ss sd) ns ng)"
      by (simp add: iloc_iadd_def DataFrame_def block_design_def)
  next
    fix i assume "i < length (block_design (ss sd) ns ng)"
    then show "length (cells ?F ! i) = length (block_design (ss sd) ns ng ! i)"
      by (simp add: iloc_iadd_def DataFrame_def block_design_def)
  next
    fix i j
    assume "i < length (block_design (ss sd) ns ng)"
      and "j < length (block_design (ss sd) ns ng ! i)"
    then have i: "i < ns" and j: "j < ng" by (simp_all add: block_design_def)
    then have "i * ng + j < ns * ng" by (rule flat_index_less)
    with i j show "cells ?F ! i ! j = block_design (ss sd) ns ng ! i ! j"
      by (simp add: iloc_iadd_def DataFrame_def block_design_def quadrant_def fadd_def)
  qed
  show ?thesis
    unfolding d using lab c by (cases ?F) simp
qed

text \<open>
  Claim C5. For every seed, sample count and gene count the generated matrix is the matrix of
  standard normal draws (the seeded stream, filled in row by row) plus a constant per
  quadrant of the two half-splits: \<open>+1\<close> for first samples and first genes, \<open>-1\<close> for first
  samples and second genes, \<open>-1\<close> for second samples and first genes, \<open>+1\<close> for second samples
  and second genes; its rows and columns carry the sample and gene labels.
\<close>

theorem generate_quadrants:
  "deref (generate seed_stream sd n_samples n_genes w) =
     \<lparr>index = samples n_samples, columns = genes n_genes,
      cells = map (\<lambda>i. map (\<lambda>j. Some (seed_stream sd (i * n_genes + j) +
                  (if i < n_samples div 2
                   then (if j < n_genes div 2 then 1 else - 1)
                   else (if j < n_genes div 2 then - 1 else 1)))) [0..<n_genes])
                [0..<n_samples]\<rparr>"
  by (simp add: generate_deref block_design_def quadrant_def)

text \<open>
  Claim C6. Two runs of the generation cell with the same seed and counts bind \<^verbatim>\<open>data\<close> to
  equal matrices, whatever the generator's state and the store were before each run: the cell
  seeds the generator before it draws.
\<close>

theorem generate_deterministic:
  "deref (generate seed_stream sd n_samples n_genes w1) =
   deref (generate seed_stream sd n_samples n_genes w2)"
  by (simp add: generate_deref)

subsection \<open>Sample metadata of the generated matrix\<close>

lemma generate_index [simp]: "index (deref (generate ss sd ns ng w)) = samples ns"
  by (simp add: generate_deref)

lemma generate_columns [simp]: "columns (deref (generate ss sd ns ng w)) = genes ng"
  by (simp add: generate_deref)

text \<open>
  Claim C10. For every even sample count of at least four, the row-parity batches and the
  half-split mouse groups are not collinear: each of the two batches holds a sample of each
  of the two mouse groups.
\<close>

theorem batch_mouse_not_collinear:
  assumes "even n_samples" and "4 \<le> n_samples"
    and "b \<in> {''Batch_01'', ''Batch_02''}" and "g \<in> {''Mouse_01'', ''Mouse_02''}"
  shows "\<exists>x \<in> set (samples n_samples).
           batches n_samples x = Some b \<and>
           mouse_groups (deref (generate seed_stream sd n_samples n_genes w)) n_samples x = Some g"
proof -
  let ?n = n_samples
  let ?mg = "mouse_groups (deref (generate seed_stream sd ?n n_genes w)) ?n"
  have two: "2 * (?n div 2) = ?n" using assms(1) by simp
  define i where "i = (if b = ''Batch_01'' then (if g = ''Mouse_01'' then 0 else ?n - 2)
                        else (if g = ''Mouse_01'' then 1 else ?n - 1))"
  have i: "i < ?n" using assms(2) by (simp add: i_def)
  have ev: "even i \<longleftrightarrow> b = ''Batch_01''"
    using assms(1,2) by (auto simp: i_def)
  have half: "i < ?n div 2 \<longleftrightarrow> g = ''Mouse_01''"
    using assms(1,2) by (auto simp: i_def elim!: evenE)
  have "batches ?n (sample_label i) = Some b"
    using assms(3) i ev by (auto simp: batches_sample)
  moreover have "?mg (sample_label i) = Some g"
    using assms(4) i half two by (subst mouse_groups_sample) auto
  moreover have "sample_label i \<in> set (samples ?n)" using i by simp
  ultimately show ?thesis by blast
qed

theorem batch_mouse_not_collinear_witness:
  "even (4::nat) \<and> (4::nat) \<le> 4 \<and>
   (\<exists>x \<in> set (samples 4).
      batches 4 x = Some ''Batch_02'' \<and>
      mouse_groups (deref (generate (\<lambda>sd i. 0) 2016 4 2 \<lparr>rng = \<lambda>i. 0, heap = []\<rparr>)) 4 x
        = Some ''Mouse_01'')"
  using batch_mouse_not_collinear [of 4 "''Batch_02''" "''Mouse_01''" "\<lambda>sd i. 0" 2016 2
      "\<lparr>rng = \<lambda>i. 0, heap = []\<rparr>"]
  by simp

text \<open>The labels of three samples, spelled out.\<close>

lemma samples_3: "samples 3 = [''Sample_01'', ''Sample_02'', ''Sample_03'']"
  by code_simp

text \<open>
  Claim C2, at three samples. The matrix has three rows, but the mouse-group series is zipped
  from \<open>1 + 1\<close> group names, so it holds no record for the third sample, and the colour
  look-up that follows in the same cell raises \<^verbatim>\<open>KeyError\<close> on that sample.
\<close>

theorem mouse_groups_odd_count:
  "nrows (deref (generate seed_stream sd 3 n_genes w)) = 3 \<and>
   mouse_groups (deref (generate seed_stream sd 3 n_genes w)) 3 ''Sample_03'' = None \<and>
   mouse_colors (deref (generate seed_stream sd 3 n_genes w)) 3 = Inl (KeyError ''Sample_03'')"
proof -
  have h: "(3::nat) div 2 = Suc 0" by simp
  show ?thesis
    by (simp add: generate_deref nrows_def block_design_def mouse_colors_def mouse_groups_def
        samples_3 dict_def getitem_def mouse_to_color_def h)
qed

subsection \<open>Batch noise\<close>

lemma index_difference_set [simp]: "set (index_difference idx other) = set idx - set other"
  by (auto simp: index_difference_def)

lemma sample_in_batch2 [simp]:
  "i < n \<Longrightarrow> sample_label i \<in> set (batch2_samples \<lparr>index = samples n, columns = cs, cells = m\<rparr> n) \<longleftrightarrow> odd i"
  by (simp add: batch2_samples_def)

lemma sample_in_batch2':
  "index df = samples n \<Longrightarrow> i < n \<Longrightarrow> sample_label i \<in> set (batch2_samples df n) \<longleftrightarrow> odd i"
  by (simp add: batch2_samples_def)

lemma ix_iadd_labels [simp]:
  "index (ix_iadd ls v df) = index df" "columns (ix_iadd ls v df) = columns df"
  by (simp_all add: ix_iadd_def)

lemma ix_iadd_shape [simp]:
  "length (cells (ix_iadd ls v df)) = length (cells df)"
  "i < length (cells df) \<Longrightarrow> length (cells (ix_iadd ls v df) ! i) = length (cells df ! i)"
  by (simp_all add: ix_iadd_def)

lemma ix_iadd_cell:
  "i < length (cells df) \<Longrightarrow> j < length (cells df ! i) \<Longrightarrow>
   cells (ix_iadd ls v df) ! i ! j =
     (if index df ! i \<in> set ls \<and> j < length (columns df) - 2
      then fadd (cells df ! i ! j) (Some (v ! j)) else cells df ! i ! j)"
  by (simp add: ix_iadd_def)

lemma rectangular_row:
  "rectangular df \<Longrightarrow> i < length (index df) \<Longrightarrow> length (cells df ! i) = length (columns df)"
  by (simp add: rectangular_def list_all_length)

lemma rectangular_rows: "rectangular df \<Longrightarrow> length (cells df) = length (index df)"
  by (simp add: rectangular_def)

text \<open>The block on a world, when there are at least two genes.\<close>

lemma add_technical_noise_run:
  assumes "2 \<le> ng"
  shows "add_technical_noise data ns ng w =
    (Inr (length (heap w)),
     \<lparr>rng = (\<lambda>i. rng w (i + (ng - 2) + (ng - 2))),
      heap = heap w @
        [ix_iadd (batch2_samples (heap w ! data) ns)
           (map (\<lambda>i. 2 * rng w (i + (ng - 2))) [0..<ng - 2])
           (ix_iadd (batch1_samples ns) (map (\<lambda>i. 2 * rng w i) [0..<ng - 2]) (heap w ! data))]\<rparr>)"
proof -
  have k: "\<not> int ng - 2 < 0" "nat (int ng - 2) = ng - 2" using assms by linarith+
  show ?thesis
    using assms by (simp add: add_technical_noise_def normal_def alloc_def inplace_def Let_def k)
qed

lemma add_technical_noise_frame:
  assumes "a < length (heap w)"
  shows "heap (snd (add_technical_noise data ns ng w)) ! a = heap w ! a"
  using assms
  by (simp add: add_technical_noise_def normal_def alloc_def inplace_def Let_def nth_append)

text \<open>
  Claim C4. With at least two genes the noise block succeeds on a frame labelled by the
  notebook's samples. Samples fall into \<^verbatim>\<open>Batch_01\<close> and \<^verbatim>\<open>Batch_02\<close> by the parity of
  their row position (even positions first). In every column but the last two, each cell
  receives twice a standard normal draw that depends on the column and on the batch only:
  draw \<open>j\<close> of the generator for the first batch, draw \<open>n_genes - 2 + j\<close> for the second. The
  last two columns are the original ones.
\<close>

theorem batch_noise_by_parity:
  assumes "index (heap w ! data) = samples n_samples"
    and "rectangular (heap w ! data)"
    and "length (columns (heap w ! data)) = n_genes"
    and "2 \<le> n_genes" and "i < n_samples" and "j < n_genes"
  shows "\<exists>noisy_data w'.
           add_technical_noise data n_samples n_genes w = (Inr noisy_data, w') \<and>
           batches n_samples (sample_label i) = Some (if even i then ''Batch_01'' else ''Batch_02'') \<and>
           cells (heap w' ! noisy_data) ! i ! j =
             (if j < n_genes - 2
              then fadd (cells (heap w ! data) ! i ! j)
                     (Some (2 * rng w ((if even i then 0 else n_genes - 2) + j)))
              else cells (heap w ! data) ! i ! j)"
proof -
  let ?D = "heap w ! data"
  have rows: "length (cells ?D) = n_samples" and row: "length (cells ?D ! i) = n_genes"
    using assms(1,2,3,5) rectangular_rows[of ?D] rectangular_row[of ?D i] by simp_all
  have lab: "index ?D ! i = sample_label i" using assms(1,5) by simp
  have b2: "sample_label i \<in> set (batch2_samples ?D n_samples) \<longleftrightarrow> odd i"
    using assms(1,5) by (rule sample_in_batch2')
  have b1: "sample_label i \<in> set (batch1_samples n_samples) \<longleftrightarrow> even i"
    using assms(5) by simp
  show ?thesis
    unfolding add_technical_noise_run[OF assms(4)]
    using assms(3,5,6) rows row lab b1 b2
    by (auto simp: ix_iadd_cell batches_sample fadd_def add.commute split: option.splits)
qed

lemma generate_rectangular [simp]: "rectangular (deref (generate ss sd ns ng w))"
  by (simp add: generate_deref rectangular_def block_design_def list_all_length)

theorem batch_noise_by_parity_witness:
  "(let G = generate (\<lambda>sd i. real i) 2016 4 4 \<lparr>rng = \<lambda>i. 0, heap = []\<rparr> in
    (2::nat) \<le> 4 \<and> (1::nat) < 4 \<and> (0::nat) < 4 \<and>
    (\<exists>noisy_data w'.
       add_technical_noise (fst G) 4 4 (snd G) = (Inr noisy_data, w') \<and>
       batches 4 (sample_label 1) = Some ''Batch_02'' \<and>
       cells (heap w' ! noisy_data) ! 1 ! 0 =
         fadd (cells (heap (snd G) ! fst G) ! 1 ! 0) (Some (2 * rng (snd G) 2))))"
proof -
  define G where "G = generate (\<lambda>sd i. real i) 2016 4 4 \<lparr>rng = \<lambda>i. 0, heap = []\<rparr>"
  have 1: "index (heap (snd G) ! fst G) = samples 4"
    and 2: "rectangular (heap (snd G) ! fst G)"
    and 3: "length (columns (heap (snd G) ! fst G)) = 4"
    using generate_index[of "\<lambda>sd i. real i" 2016 4 4 "\<lparr>rng = \<lambda>i. 0, heap = []\<rparr>"]
      generate_columns[of "\<lambda>sd i. real i" 2016 4 4 "\<lparr>rng = \<lambda>i. 0, heap = []\<rparr>"]
      generate_rectangular[of "\<lambda>sd i. real i" 2016 4 4 "\<lparr>rng = \<lambda>i. 0, heap = []\<rparr>"]
    by (simp_all add: deref_def G_def)
  have "(2::nat) \<le> 4" "(1::nat) < 4" "(0::nat) < 4" by simp_all
  from batch_noise_by_parity[OF 1 2 3 this]
  show ?thesis unfolding G_def[symmetric] Let_def by simp
qed

subsection \<open>Frames of earlier stages\<close>

lemma make_rin_noise_frame:
  assumes "a < length (heap w)"
  shows "heap (snd (make_rin_noise ns ng w)) ! a = heap w ! a"
  using assms
  by (simp add: make_rin_noise_def alloc_def Let_def nth_append split: sum.splits)

lemma add_rin_noise_frame:
  assumes "a < length (heap w)"
  shows "heap (snd (add_rin_noise data rin_noise w)) ! a = heap w ! a"
  using assms
  by (simp add: add_rin_noise_def alloc_def Let_def nth_append)

lemma regress_out_rin_frame:
  assumes "a < length (heap w)"
  shows "heap (snd (regress_out_rin rin_batchy_data ns ng w)) ! a = heap w ! a"
  using assms
  by (simp add: regress_out_rin_def alloc_def Let_def nth_append split: sum.splits)

text \<open>Every stage only extends the store, and what it returns is new.\<close>

lemma add_technical_noise_extends:
  "take (length (heap w)) (heap (snd (add_technical_noise data ns ng w))) = heap w"
  by (simp add: add_technical_noise_def normal_def alloc_def inplace_def Let_def)

lemma add_technical_noise_fresh:
  "case fst (add_technical_noise data ns ng w) of
     Inl e \<Rightarrow> True
   | Inr noisy_data \<Rightarrow>
       length (heap w) \<le> noisy_data \<and>
       noisy_data < length (heap (snd (add_technical_noise data ns ng w)))"
  by (simp add: add_technical_noise_def normal_def alloc_def inplace_def Let_def)

lemma make_rin_noise_extends:
  "take (length (heap w)) (heap (snd (make_rin_noise ns ng w))) = heap w"
  by (simp add: make_rin_noise_def alloc_def Let_def split: sum.splits)

lemma make_rin_noise_fresh:
  "case fst (make_rin_noise ns ng w) of
     Inl e \<Rightarrow> True
   | Inr rin_noise \<Rightarrow>
       length (heap w) \<le> rin_noise \<and> rin_noise < length (heap (snd (make_rin_noise ns ng w)))"
  by (simp add: make_rin_noise_def alloc_def Let_def split: sum.splits)

lemma add_rin_noise_extends:
  "take (length (heap w)) (heap (snd (add_rin_noise data rin_noise w))) = heap w"
  by (simp add: add_rin_noise_def alloc_def Let_def)

lemma add_rin_noise_fresh:
  "length (heap w) \<le> fst (add_rin_noise data rin_noise w) \<and>
   fst (add_rin_noise data rin_noise w) < length (heap (snd (add_rin_noise data rin_noise w)))"
  by (simp add: add_rin_noise_def alloc_def Let_def)

lemma regress_out_rin_extends:
  "take (length (heap w)) (heap (snd (regress_out_rin rb ns ng w))) = heap w"
  by (simp add: regress_out_rin_def alloc_def Let_def split: sum.splits)

lemma regress_out_rin_fresh:
  "case fst (regress_out_rin rb ns ng w) of
     Inl e \<Rightarrow> True
   | Inr (rin_dependent_data, rin_corrected_data) \<Rightarrow>
       length (heap w) \<le> rin_dependent_data \<and> rin_dependent_data < rin_corrected_data \<and>
       rin_corrected_data < length (heap (snd (regress_out_rin rb ns ng w)))"
  by (simp add: regress_out_rin_def alloc_def Let_def split: sum.splits)

subsection \<open>Frame arithmetic and the noise frame\<close>

lemma loc_nth:
  assumes "rectangular df" "distinct (index df)" "distinct (columns df)"
    and "i < length (index df)" "j < length (columns df)"
  shows "loc df (index df ! i) (columns df ! j) = cells df ! i ! j"
proof -
  have r: "map_of (zip (index df) (cells df)) (index df ! i) = Some (cells df ! i)"
    using assms(1,2,4) by (intro map_of_zip_nth) (simp_all add: rectangular_def)
  have len: "length (cells df ! i) = length (columns df)"
    using assms(1,4) by (rule rectangular_row)
  have c: "map_of (zip (columns df) (cells df ! i)) (columns df ! j) = Some (cells df ! i ! j)"
    using assms(3,5) len by (intro map_of_zip_nth) simp_all
  show ?thesis by (simp add: loc_def r c)
qed

lemma df_binop_aligned:
  assumes "index a = index b" "columns a = columns b"
    and "distinct (index a)" "distinct (columns a)" "rectangular a" "rectangular b"
  shows "df_binop f a b =
           \<lparr>index = index a, columns = columns a,
            cells = map (\<lambda>i. map (\<lambda>j. f (cells a ! i ! j) (cells b ! i ! j))
                       [0..<length (columns a)]) [0..<length (index a)]\<rparr>"
proof -
  have "map (\<lambda>r. map (\<lambda>c. f (loc a r c) (loc b r c)) (columns a)) (index a)
        = map (\<lambda>i. map (\<lambda>j. f (cells a ! i ! j) (cells b ! i ! j))
                       [0..<length (columns a)]) [0..<length (index a)]" (is "?L = ?R")
  proof (rule matrix_eqI)
    show "length ?L = length ?R" by simp
  next
    fix i assume "i < length ?R"
    then show "length (?L ! i) = length (?R ! i)" by simp
  next
    fix i j assume "i < length ?R" "j < length (?R ! i)"
    then have i: "i < length (index a)" and j: "j < length (columns a)" by simp_all
    have "loc a (index a ! i) (columns a ! j) = cells a ! i ! j"
      using assms(3,4,5) i j by (intro loc_nth)
    moreover have "loc b (index a ! i) (columns a ! j) = cells b ! i ! j"
      using loc_nth[of b i j] assms i j by simp
    ultimately show "?L ! i ! j = ?R ! i ! j" using i j by simp
  qed
  then show ?thesis
    using assms(1,2) by (simp add: df_binop_def union_labels_def Let_def)
qed

lemma comprehension_Inr:
  "(\<And>x. x \<in> set xs \<Longrightarrow> f x = Inr (g x)) \<Longrightarrow> comprehension f xs = Inr (map g xs)"
  by (induction xs) simp_all

lemma butlast_upt_eq: "butlast [m..<n] = [m..<n - 1]"
  by (cases n) simp_all

lemma slice_genes: "slice_1_m1 (genes n) = map gene_label [1..<n - 1]"
  by (simp add: slice_1_m1_def genes_def map_tl[symmetric] map_butlast[symmetric] butlast_upt_eq)

lemma map_of_const_inj:
  assumes "inj f"
  shows "map_of (map (\<lambda>x. (f x, v)) xs) (f j) = (if j \<in> set xs then Some v else None)"
  using assms by (induction xs) (auto dest: injD)

lemma RIN_length [simp]: "length (RIN n) = n"
  by (simp add: RIN_def)

lemma RIN_nth [simp]: "i < n \<Longrightarrow> RIN n ! i = real i + 1 / 2"
  by (simp add: RIN_def)

lemma make_rin_noise_run:
  assumes "2 \<le> ng" "1 \<le> ns"
  shows "make_rin_noise ns ng w =
           (Inr (length (heap w) + 2),
            w\<lparr>heap := heap w @
               [\<lparr>index = samples ns, columns = slice_1_m1 (genes ng),
                 cells = map (\<lambda>x. replicate (ng - 2) (Some x)) (RIN ns)\<rparr>,
                reindex_columns (genes ng)
                  \<lparr>index = samples ns, columns = slice_1_m1 (genes ng),
                   cells = map (\<lambda>x. replicate (ng - 2) (Some x)) (RIN ns)\<rparr>,
                rin_noise_frame ns ng]\<rparr>)"
proof -
  let ?rows = "map (\<lambda>x. replicate (ng - 2) (Some x)) (RIN ns)"
  let ?A = "\<lparr>index = samples ns, columns = slice_1_m1 (genes ng), cells = ?rows\<rparr>"
  have ones: "np_ones (int ng - 2) = Inr (replicate (ng - 2) 1)"
    using assms(1) by (simp add: np_ones_def nat_diff_distrib')
  have comp: "comprehension
             (\<lambda>x. case np_ones (int ng - 2) of
                     Inl e \<Rightarrow> Inl e
                   | Inr ones \<Rightarrow> Inr (map (\<lambda>u. Some (u * x)) ones))
             (RIN ns) = Inr ?rows"
    by (rule comprehension_Inr) (simp add: ones)
  have ne: "?rows \<noteq> []" using assms(2) by (simp add: RIN_def)
  have fill: "fillna 0 (reindex_columns (genes ng) ?A) = rin_noise_frame ns ng"
  proof -
    have "cells (fillna 0 (reindex_columns (genes ng) ?A)) = cells (rin_noise_frame ns ng)"
    proof (rule matrix_eqI)
      show "length (cells (fillna 0 (reindex_columns (genes ng) ?A))) = length (cells (rin_noise_frame ns ng))"
        by (simp add: fillna_def reindex_columns_def rin_noise_frame_def)
    next
      fix i assume "i < length (cells (rin_noise_frame ns ng))"
      then show "length (cells (fillna 0 (reindex_columns (genes ng) ?A)) ! i) = length (cells (rin_noise_frame ns ng) ! i)"
        by (simp add: fillna_def reindex_columns_def rin_noise_frame_def)
    next
      fix i j
      assume "i < length (cells (rin_noise_frame ns ng))"
        and "j < length (cells (rin_noise_frame ns ng) ! i)"
      then have i: "i < ns" and j: "j < ng" by (simp_all add: rin_noise_frame_def)
      have z: "zip (map gene_label [1..<ng - 1]) (replicate (ng - 2) (Some (real i + 1 / 2)))
               = map (\<lambda>x. (gene_label x, Some (real i + 1 / 2))) [1..<ng - 1]"
        by (rule nth_equalityI) auto
      have m: "map_of (zip (slice_1_m1 (genes ng)) (replicate (ng - 2) (Some (real i + 1 / 2)))) (gene_label j)
            = (if 1 \<le> j \<and> j < ng - 1 then Some (Some (real i + 1 / 2)) else None)"
        unfolding slice_genes z by (subst map_of_const_inj[OF gene_label_inj]) auto
      show "cells (fillna 0 (reindex_columns (genes ng) ?A)) ! i ! j = cells (rin_noise_frame ns ng) ! i ! j"
        using i j by (simp add: fillna_def reindex_columns_def rin_noise_frame_def m)
    qed
    then show ?thesis
      by (simp add: fillna_def reindex_columns_def rin_noise_frame_def)
  qed
  show ?thesis
    using ne by (simp add: make_rin_noise_def comp alloc_def Let_def fill)
qed

subsection \<open>Mean and standard deviation of a standardised column\<close>

lemma present_Some [simp]: "present (map Some xs) = xs"
  by (induction xs) (simp_all add: present_def)


lemma sum_list_shift: "sum_list (map (\<lambda>x. x - c) xs) = sum_list xs - real (length xs) * (c::real)"
  by (induction xs) (simp_all add: algebra_simps)


lemma sum_list_centred: "xs \<noteq> [] \<Longrightarrow> sum_list (map (\<lambda>x. x - mean xs) xs) = 0"
  by (simp add: sum_list_shift mean_def)

lemma sumsq_nonneg: "0 \<le> sum_list (map (\<lambda>x. (x - c)\<^sup>2) xs)" for c :: real
  by (induction xs) simp_all

lemma sumsq_zero_iff:
  "sum_list (map (\<lambda>x. (x - c)\<^sup>2) xs) = 0 \<longleftrightarrow> (\<forall>x \<in> set xs. x = c)" for c :: real
proof (induction xs)
  case Nil
  then show ?case by simp
next
  case (Cons a xs)
  have "(a - c)\<^sup>2 + sum_list (map (\<lambda>x. (x - c)\<^sup>2) xs) = 0
        \<longleftrightarrow> (a - c)\<^sup>2 = 0 \<and> sum_list (map (\<lambda>x. (x - c)\<^sup>2) xs) = 0"
    using sumsq_nonneg[of c xs] by (intro add_nonneg_eq_0_iff) simp_all
  with Cons show ?case by simp
qed




subsection \<open>The generation and covariate-noise cells on the store\<close>

lemma generate_run:
  "generate ss sd ns ng w0 =
     (length (heap w0),
      \<lparr>rng = (\<lambda>i. ss sd (i + ns * ng)),
       heap = heap w0 @ [\<lparr>index = samples ns, columns = genes ng, cells = block_design (ss sd) ns ng\<rparr>]\<rparr>)"
proof -
  obtain a w where g: "generate ss sd ns ng w0 = (a, w)" by (cases "generate ss sd ns ng w0")
  have a: "a = length (heap w0)"
    using g by (simp add: generate_def Let_def randn_def np_random_seed_def alloc_def split_def)
  have r: "rng w = (\<lambda>i. ss sd (i + ns * ng))"
    using g by (auto simp add: generate_def Let_def randn_def np_random_seed_def alloc_def split_def)
  have "heap w = (heap w0 @ [heap w ! a])"
    using g by (auto simp add: generate_def Let_def randn_def np_random_seed_def alloc_def split_def a)
  moreover have "heap w ! a = \<lparr>index = samples ns, columns = genes ng, cells = block_design (ss sd) ns ng\<rparr>"
    using generate_deref[of ss sd ns ng w0] g by (simp add: deref_def)
  ultimately have h: "heap w = heap w0 @ [\<lparr>index = samples ns, columns = genes ng, cells = block_design (ss sd) ns ng\<rparr>]"
    by simp
  show ?thesis unfolding g using a r h by (cases w) simp
qed

lemma add_rin_noise_run:
  "add_rin_noise data rin_noise w =
     (length (heap w) + 2,
      w\<lparr>heap := heap w @
        [df_binop fadd (heap w ! data) (heap w ! rin_noise),
         sub_series (df_binop fadd (heap w ! data) (heap w ! rin_noise))
           (df_mean (df_binop fadd (heap w ! data) (heap w ! rin_noise))),
         standardize (df_binop fadd (heap w ! data) (heap w ! rin_noise))]\<rparr>)"
  by (simp add: add_rin_noise_def alloc_def Let_def standardize_def nth_append)

lemma rin_noise_frame_rectangular [simp]: "rectangular (rin_noise_frame ns ng)"
  by (simp add: rin_noise_frame_def rectangular_def list_all_length)


subsection \<open>Re-standardised columns\<close>

lemma df_mean_nth [simp]: "j < length (columns S) \<Longrightarrow> df_mean S ! j = col_mean (column S j)"
  by (simp add: df_mean_def)

lemma df_std_nth [simp]: "j < length (columns S) \<Longrightarrow> df_std S ! j = col_std (column S j)"
  by (simp add: df_std_def)

lemma column_nth [simp]: "i < length (cells S) \<Longrightarrow> column S j ! i = cells S ! i ! j"
  by (simp add: column_def)

lemma column_length [simp]: "length (column S j) = length (cells S)"
  by (simp add: column_def)

lemma standardize_shape [simp]:
  "index (standardize S) = index S" "columns (standardize S) = columns S"
  "length (cells (standardize S)) = length (cells S)"
  by (simp_all add: standardize_def div_series_def sub_series_def)






lemma upt_2: "[0..<2] = [0, 1]"
  by (simp add: upt_rec)








subsection \<open>Ordinary least squares\<close>

lemma sum_list_map_nth: "sum_list (map f xs) = (\<Sum>i<length xs. f (xs ! i))"
proof -
  have "sum_list (map f xs) = (\<Sum>i = 0..<length (map f xs). map f xs ! i)"
    by (rule sum_list_sum_nth)
  then show ?thesis by (simp add: atLeast0LessThan)
qed

lemma sum_list_map2_nth:
  assumes "length xs = length ys"
  shows "sum_list (map2 f xs ys) = (\<Sum>i<length xs. f (xs ! i) (ys ! i))"
proof -
  have "sum_list (map2 f xs ys) = (\<Sum>i = 0..<length (map2 f xs ys). map2 f xs ys ! i)"
    by (rule sum_list_sum_nth)
  then show ?thesis using assms by (simp add: atLeast0LessThan)
qed

lemma sum_centred_nth: "(\<Sum>i<length xs. xs ! i - mean xs) = 0"
proof (cases "xs = []")
  case True
  then show ?thesis by simp
next
  case False
  have "(\<Sum>i<length xs. xs ! i - mean xs) = sum_list (map (\<lambda>x. x - mean xs) xs)"
    by (simp add: sum_list_map_nth)
  with False show ?thesis by (simp add: sum_list_centred)
qed

text \<open>The two normal equations of the fitted line.\<close>

lemma ols_normal_equations:
  assumes "length xs = length ys"
  defines "r \<equiv> \<lambda>i. ys ! i - (ols_intercept xs ys + ols_slope xs ys * xs ! i)"
  shows "(\<Sum>i<length xs. r i) = 0" and "(\<Sum>i<length xs. r i * (xs ! i - mean xs)) = 0"
proof -
  let ?n = "length xs" and ?b = "ols_slope xs ys"
  let ?sxx = "\<Sum>i<?n. (xs ! i - mean xs)\<^sup>2"
  let ?sxy = "\<Sum>i<?n. (xs ! i - mean xs) * (ys ! i - mean ys)"
  have r: "r i = (ys ! i - mean ys) - ?b * (xs ! i - mean xs)" for i
    by (simp add: r_def ols_intercept_def algebra_simps)
  have sy: "(\<Sum>i<?n. ys ! i - mean ys) = 0"
    using sum_centred_nth[of ys] assms(1) by simp
  have sx: "(\<Sum>i<?n. xs ! i - mean xs) = 0" by (rule sum_centred_nth)
  have "(\<Sum>i<?n. r i) = (\<Sum>i<?n. (ys ! i - mean ys) - ?b * (xs ! i - mean xs))"
    by (simp only: r)
  also have "\<dots> = (\<Sum>i<?n. ys ! i - mean ys) - (\<Sum>i<?n. ?b * (xs ! i - mean xs))"
    by (rule sum_subtractf)
  also have "\<dots> = (\<Sum>i<?n. ys ! i - mean ys) - ?b * (\<Sum>i<?n. xs ! i - mean xs)"
    by (simp only: sum_distrib_left)
  also have "\<dots> = 0" by (simp add: sx sy)
  finally show "(\<Sum>i<?n. r i) = 0" .
  have b: "?b = (if ?sxx = 0 then 0 else ?sxy / ?sxx)"
    using assms(1) by (simp add: ols_slope_def Let_def sum_list_map_nth sum_list_map2_nth)
  have xy0: "?sxx = 0 \<Longrightarrow> ?sxy = 0"
  proof -
    assume "?sxx = 0"
    then have "\<forall>i\<in>{..<?n}. (xs ! i - mean xs)\<^sup>2 = 0"
      by (subst (asm) sum_nonneg_eq_0_iff) simp_all
    then show "?sxy = 0" by simp
  qed
  have "r i * (xs ! i - mean xs)
          = (xs ! i - mean xs) * (ys ! i - mean ys) - ?b * (xs ! i - mean xs)\<^sup>2" for i
    by (simp add: r algebra_simps power2_eq_square)
  then have "(\<Sum>i<?n. r i * (xs ! i - mean xs))
          = (\<Sum>i<?n. (xs ! i - mean xs) * (ys ! i - mean ys) - ?b * (xs ! i - mean xs)\<^sup>2)"
    by (simp only:)
  also have "\<dots> = ?sxy - (\<Sum>i<?n. ?b * (xs ! i - mean xs)\<^sup>2)"
    by (rule sum_subtractf)
  also have "\<dots> = ?sxy - ?b * ?sxx"
    by (simp only: sum_distrib_left)
  finally have "(\<Sum>i<?n. r i * (xs ! i - mean xs)) = ?sxy - ?b * ?sxx" .
  also have "\<dots> = 0" using xy0 by (simp add: b)
  finally show "(\<Sum>i<?n. r i * (xs ! i - mean xs)) = 0" .
qed

text \<open>The fitted line minimises the sum of squared residuals among all lines.\<close>

lemma ols_least_squares:
  assumes "length xs = length ys"
  shows "sse xs ys (ols_intercept xs ys) (ols_slope xs ys) \<le> sse xs ys a b"
proof -
  let ?n = "length xs" and ?a = "ols_intercept xs ys" and ?b = "ols_slope xs ys"
  define r where "r = (\<lambda>i. ys ! i - (?a + ?b * xs ! i))"
  define c where "c = (?a - a) + (?b - b) * mean xs"
  define e where "e = ?b - b"
  define d where "d = (\<lambda>i. c + e * (xs ! i - mean xs))"
  have n1: "(\<Sum>i<?n. r i) = 0" and n2: "(\<Sum>i<?n. r i * (xs ! i - mean xs)) = 0"
    using ols_normal_equations[OF assms] by (simp_all add: r_def)
  have res: "ys ! i - (a + b * xs ! i) = r i + d i" for i
    by (simp add: r_def d_def c_def e_def algebra_simps)
  have rd: "(\<Sum>i<?n. r i * d i) = 0"
  proof -
    have "r i * d i = c * r i + e * (r i * (xs ! i - mean xs))" for i
      by (simp add: d_def algebra_simps)
    then have "(\<Sum>i<?n. r i * d i) = c * (\<Sum>i<?n. r i) + e * (\<Sum>i<?n. r i * (xs ! i - mean xs))"
      by (simp only: sum.distrib sum_distrib_left)
    then show ?thesis by (simp add: n1 n2)
  qed
  have "sse xs ys a b = (\<Sum>i<?n. (r i + d i)\<^sup>2)"
    using assms by (simp add: sse_def sum_list_map2_nth res)
  also have "\<dots> = (\<Sum>i<?n. (r i)\<^sup>2 + 2 * (r i * d i) + (d i)\<^sup>2)"
    by (simp add: power2_sum algebra_simps)
  also have "\<dots> = (\<Sum>i<?n. (r i)\<^sup>2) + 2 * (\<Sum>i<?n. r i * d i) + (\<Sum>i<?n. (d i)\<^sup>2)"
    by (simp only: sum.distrib sum_distrib_left)
  also have "\<dots> = (\<Sum>i<?n. (r i)\<^sup>2) + (\<Sum>i<?n. (d i)\<^sup>2)"
    by (simp add: rd)
  finally have "sse xs ys a b = sse xs ys ?a ?b + (\<Sum>i<?n. (d i)\<^sup>2)"
    using assms by (simp add: sse_def sum_list_map2_nth r_def)
  moreover have "0 \<le> (\<Sum>i<?n. (d i)\<^sup>2)" by (rule sum_nonneg) simp
  ultimately show ?thesis by simp
qed

subsection \<open>The regression block\<close>

lemma no_nan_cell:
  assumes "\<not> has_nan F" "i < length (cells F)" "j < length (cells F ! i)"
  shows "\<exists>y. cells F ! i ! j = Some y"
proof -
  have "cells F ! i \<in> set (cells F)" using assms(2) by simp
  then have "None \<notin> set (cells F ! i)"
    using assms(1) by (auto simp: has_nan_def list_ex_iff)
  moreover have "cells F ! i ! j \<in> set (cells F ! i)" using assms(3) by simp
  ultimately show ?thesis by (cases "cells F ! i ! j") auto
qed

lemma response_nth:
  assumes "\<not> has_nan F" "i < length (cells F)" "j < length (cells F ! i)"
  shows "cells F ! i ! j = Some (response F j ! i)"
  using no_nan_cell[OF assms] assms(2) by (auto simp: response_def column_def)

lemma response_length [simp]: "length (response F j) = length (cells F)"
  by (simp add: response_def column_def)

lemma regress_out_rin_run:
  assumes "index (heap w ! rb) = samples ns" "columns (heap w ! rb) = genes ng"
    and "rectangular (heap w ! rb)" "\<not> has_nan (heap w ! rb)" "1 \<le> ns" "1 \<le> ng"
    and "rb < length (heap w)"
  shows "regress_out_rin rb ns ng w =
           (Inr (length (heap w), length (heap w) + 1),
            w\<lparr>heap := heap w @ [predicted_frame ns ng (heap w ! rb),
                                 corrected_frame ns ng (heap w ! rb)]\<rparr>)"
proof -
  let ?F = "heap w ! rb" and ?X = "RIN ns"
  let ?m = "\<lparr>coef = map (\<lambda>j. ols_slope ?X (map the (column ?F j))) [0..<ng],
             intercept = map (\<lambda>j. ols_intercept ?X (map the (column ?F j))) [0..<ng]\<rparr>"
  have rows: "length (cells ?F) = ns"
    using assms(1,3) by (simp add: rectangular_def)
  have row: "i < ns \<Longrightarrow> length (cells ?F ! i) = ng" for i
    using assms(1,2,3) rectangular_row[of ?F i] by simp
  have fit: "LinearRegression_fit ?X ?F = Inr ?m"
    using assms(2,4,5,6) rows by (simp add: LinearRegression_fit_def nrows_def)
  have pred: "LinearRegression_predict ?m ?X
                = map (\<lambda>i. map (\<lambda>j. fitted ?X ?F i j) [0..<ng]) [0..<ns]"
  proof (rule matrix_eqI)
    show "length (LinearRegression_predict ?m ?X) = length (map (\<lambda>i. map (\<lambda>j. fitted ?X ?F i j) [0..<ng]) [0..<ns])"
      by (simp add: LinearRegression_predict_def)
  next
    fix i assume "i < length (map (\<lambda>i. map (\<lambda>j. fitted ?X ?F i j) [0..<ng]) [0..<ns])"
    then show "length (LinearRegression_predict ?m ?X ! i) = length (map (\<lambda>i. map (\<lambda>j. fitted ?X ?F i j) [0..<ng]) [0..<ns] ! i)"
      by (simp add: LinearRegression_predict_def)
  next
    fix i j
    assume "i < length (map (\<lambda>i. map (\<lambda>j. fitted ?X ?F i j) [0..<ng]) [0..<ns])"
      and "j < length (map (\<lambda>i. map (\<lambda>j. fitted ?X ?F i j) [0..<ng]) [0..<ns] ! i)"
    then have "i < ns" "j < ng" by simp_all
    then show "LinearRegression_predict ?m ?X ! i ! j = map (\<lambda>i. map (\<lambda>j. fitted ?X ?F i j) [0..<ng]) [0..<ns] ! i ! j"
      by (simp add: LinearRegression_predict_def fitted_def response_def)
  qed
  have df: "DataFrame2d (LinearRegression_predict ?m ?X) (samples ns) (genes ng)
              = Inr (predicted_frame ns ng ?F)"
    unfolding pred
    by (simp add: DataFrame2d_def predicted_frame_def list_all_length comp_def)
  have rP: "rectangular (predicted_frame ns ng ?F)"
    by (simp add: predicted_frame_def rectangular_def list_all_length)
  have "df_binop fsub ?F (predicted_frame ns ng ?F) =
          \<lparr>index = index ?F, columns = columns ?F,
           cells = map (\<lambda>i. map (\<lambda>j. fsub (cells ?F ! i ! j) (cells (predicted_frame ns ng ?F) ! i ! j))
                       [0..<length (columns ?F)]) [0..<length (index ?F)]\<rparr>"
    using assms(1,2,3) rP
    by (intro df_binop_aligned) (simp_all add: predicted_frame_def)
  also have "\<dots> = corrected_frame ns ng ?F"
  proof -
    have "fsub (cells ?F ! i ! j) (cells (predicted_frame ns ng ?F) ! i ! j)
            = Some (response ?F j ! i - fitted ?X ?F i j)" if "i < ns" "j < ng" for i j
      using that response_nth[OF assms(4), of i j] rows row[of i]
      by (simp add: predicted_frame_def fsub_def)
    then show ?thesis
      by (simp add: corrected_frame_def assms(1,2))
  qed
  finally have sub: "df_binop fsub ?F (predicted_frame ns ng ?F) = corrected_frame ns ng ?F" .
  show ?thesis
    using assms(7) by (simp add: regress_out_rin_def fit df alloc_def Let_def nth_append sub)
qed

text \<open>
  Claim C8. On a frame without NaN that is labelled by the notebook's samples and genes, the
  regression block succeeds. The predicted frame holds, for every gene, the line
  \<open>intercept + slope * RIN\<close> that minimises the sum of squared residuals over all lines, so
  RIN with an intercept is the only predictor; the corrected frame holds the observed minus
  the predicted values and has the labels and the shape of the input.
\<close>

theorem regression_correction:
  assumes "index (heap w ! rin_batchy_data) = samples n_samples"
    and "columns (heap w ! rin_batchy_data) = genes n_genes"
    and "rectangular (heap w ! rin_batchy_data)"
    and "\<not> has_nan (heap w ! rin_batchy_data)"
    and "1 \<le> n_samples" and "1 \<le> n_genes"
    and "rin_batchy_data < length (heap w)"
  shows "\<exists>rin_dependent_data rin_corrected_data w'.
           regress_out_rin rin_batchy_data n_samples n_genes w
             = (Inr (rin_dependent_data, rin_corrected_data), w') \<and>
           index (heap w' ! rin_corrected_data) = index (heap w ! rin_batchy_data) \<and>
           columns (heap w' ! rin_corrected_data) = columns (heap w ! rin_batchy_data) \<and>
           rectangular (heap w' ! rin_corrected_data) \<and>
           (\<forall>i<n_samples. \<forall>j<n_genes.
              cells (heap w' ! rin_dependent_data) ! i ! j
                = Some (fitted (RIN n_samples) (heap w ! rin_batchy_data) i j) \<and>
              cells (heap w ! rin_batchy_data) ! i ! j
                = Some (response (heap w ! rin_batchy_data) j ! i) \<and>
              cells (heap w' ! rin_corrected_data) ! i ! j
                = Some (response (heap w ! rin_batchy_data) j ! i
                        - fitted (RIN n_samples) (heap w ! rin_batchy_data) i j)) \<and>
           (\<forall>j<n_genes. \<forall>a b.
              sse (RIN n_samples) (response (heap w ! rin_batchy_data) j)
                (ols_intercept (RIN n_samples) (response (heap w ! rin_batchy_data) j))
                (ols_slope (RIN n_samples) (response (heap w ! rin_batchy_data) j))
              \<le> sse (RIN n_samples) (response (heap w ! rin_batchy_data) j) a b)"
proof -
  let ?F = "heap w ! rin_batchy_data"
  have rows: "length (cells ?F) = n_samples"
    using assms(1,3) by (simp add: rectangular_def)
  have row: "i < n_samples \<Longrightarrow> length (cells ?F ! i) = n_genes" for i
    using assms(1,2,3) rectangular_row[of ?F i] by simp
  have cellF: "cells ?F ! i ! j = Some (response ?F j ! i)" if "i < n_samples" "j < n_genes" for i j
    using that response_nth[OF assms(4), of i j] rows row[of i] by simp
  have ls: "sse (RIN n_samples) (response ?F j)
                (ols_intercept (RIN n_samples) (response ?F j))
                (ols_slope (RIN n_samples) (response ?F j))
              \<le> sse (RIN n_samples) (response ?F j) a b" for j a b
    by (rule ols_least_squares) (simp add: rows)
  show ?thesis
    unfolding regress_out_rin_run[OF assms]
    using assms(1,2,7) cellF ls
    by (simp add: nth_append corrected_frame_def predicted_frame_def rectangular_def
        list_all_length)
qed

theorem regression_correction_witness:
  "(let F = \<lparr>index = samples 2, columns = genes 1, cells = [[Some 1], [Some 3]]\<rparr>;
        W = \<lparr>rng = \<lambda>i. 0, heap = [F]\<rparr>
    in index (heap W ! 0) = samples 2 \<and> columns (heap W ! 0) = genes 1 \<and>
       rectangular (heap W ! 0) \<and> \<not> has_nan (heap W ! 0) \<and>
       (1::nat) \<le> 2 \<and> (1::nat) \<le> 1 \<and> 0 < length (heap W) \<and>
       (\<exists>rin_dependent_data rin_corrected_data w'.
          regress_out_rin 0 2 1 W = (Inr (rin_dependent_data, rin_corrected_data), w') \<and>
          index (heap w' ! rin_corrected_data) = samples 2 \<and>
          columns (heap w' ! rin_corrected_data) = genes 1 \<and>
          rectangular (heap w' ! rin_corrected_data)))"
proof -
  define F where "F = \<lparr>index = samples 2, columns = genes 1, cells = [[Some 1], [Some 3]]\<rparr>"
  define W where "W = \<lparr>rng = \<lambda>i. 0, heap = [F]\<rparr>"
  have h: "index (heap W ! 0) = samples 2" "columns (heap W ! 0) = genes 1"
    "rectangular (heap W ! 0)" "\<not> has_nan (heap W ! 0)"
    "(1::nat) \<le> 2" "(1::nat) \<le> 1" "0 < length (heap W)"
    by (simp_all add: W_def F_def rectangular_def has_nan_def)
  from regression_correction[OF h] h
  show ?thesis unfolding Let_def F_def[symmetric] W_def[symmetric] by auto
qed

lemma RIN_sxx_pos:
  assumes "2 \<le> n"
  shows "sum_list (map (\<lambda>x. (x - mean (RIN n))\<^sup>2) (RIN n)) \<noteq> 0"
proof
  assume "sum_list (map (\<lambda>x. (x - mean (RIN n))\<^sup>2) (RIN n)) = 0"
  then have all: "\<forall>x \<in> set (RIN n). x = mean (RIN n)" by (simp add: sumsq_zero_iff)
  have "RIN n ! 0 \<in> set (RIN n)" "RIN n ! 1 \<in> set (RIN n)"
    using assms by (simp_all del: RIN_nth)
  with all have "RIN n ! 0 = RIN n ! 1" by metis
  then show False using assms by simp
qed

lemma fitted_zero_iff:
  assumes "2 \<le> n" "length ys = n"
  shows "(\<forall>i<n. ols_intercept (RIN n) ys + ols_slope (RIN n) ys * RIN n ! i = 0)
         \<longleftrightarrow> mean ys = 0 \<and>
             sum_list (map2 (\<lambda>x y. (x - mean (RIN n)) * (y - mean ys)) (RIN n) ys) = 0"
    (is "?L \<longleftrightarrow> ?R")
proof
  let ?a = "ols_intercept (RIN n) ys" and ?b = "ols_slope (RIN n) ys"
  assume L: ?L
  have "?a + ?b * RIN n ! 0 = 0" "?a + ?b * RIN n ! 1 = 0"
    using L assms(1) by (auto simp del: RIN_nth)
  then have "?a + ?b * (1 / 2) = 0" "?a + ?b * (3 / 2) = 0"
    using assms(1) by simp_all
  then have b: "?b = 0" and a: "?a = 0" by (simp_all add: algebra_simps)
  from b have "sum_list (map2 (\<lambda>x y. (x - mean (RIN n)) * (y - mean ys)) (RIN n) ys) = 0"
    using RIN_sxx_pos[OF assms(1)] by (simp add: ols_slope_def Let_def)
  moreover from a b have "mean ys = 0" by (simp add: ols_intercept_def)
  ultimately show ?R by simp
next
  assume R: ?R
  have R1: "mean ys = 0" using R by (rule conjunct1)
  have R2: "sum_list (map2 (\<lambda>x y. (x - mean (RIN n)) * (y - mean ys)) (RIN n) ys) = 0"
    using R by (rule conjunct2)
  have "ols_slope (RIN n) ys = 0" unfolding ols_slope_def Let_def R2 by simp
  with R1 show ?L by (simp add: ols_intercept_def)
qed

text \<open>
  Claim C1, amended. The regression block subtracts from every gene its least-squares line in
  RIN, whether or not noise was injected. With at least two samples it returns a gene's column
  unchanged exactly when that line is zero, that is, when the gene's values have mean zero and
  zero covariance with RIN.
\<close>

theorem regression_unchanged_iff:
  assumes "index (heap w ! rin_batchy_data) = samples n_samples"
    and "columns (heap w ! rin_batchy_data) = genes n_genes"
    and "rectangular (heap w ! rin_batchy_data)"
    and "\<not> has_nan (heap w ! rin_batchy_data)"
    and "2 \<le> n_samples" and "j < n_genes"
    and "rin_batchy_data < length (heap w)"
  shows "\<exists>rin_dependent_data rin_corrected_data w'.
           regress_out_rin rin_batchy_data n_samples n_genes w
             = (Inr (rin_dependent_data, rin_corrected_data), w') \<and>
           ((\<forall>i<n_samples. cells (heap w' ! rin_corrected_data) ! i ! j
                             = cells (heap w ! rin_batchy_data) ! i ! j)
            \<longleftrightarrow> mean (response (heap w ! rin_batchy_data) j) = 0 \<and>
                sum_list (map2 (\<lambda>x y. (x - mean (RIN n_samples))
                                      * (y - mean (response (heap w ! rin_batchy_data) j)))
                           (RIN n_samples) (response (heap w ! rin_batchy_data) j)) = 0)"
proof -
  let ?F = "heap w ! rin_batchy_data"
  let ?ys = "response ?F j"
  have ns: "1 \<le> n_samples" and ng: "1 \<le> n_genes" using assms(5,6) by simp_all
  have rows: "length (cells ?F) = n_samples"
    using assms(1,3) by (simp add: rectangular_def)
  have row: "i < n_samples \<Longrightarrow> length (cells ?F ! i) = n_genes" for i
    using assms(1,2,3) rectangular_row[of ?F i] by simp
  have cellF: "cells ?F ! i ! j = Some (?ys ! i)" if "i < n_samples" for i
    using that response_nth[OF assms(4), of i j] rows row[of i] assms(6) by simp
  have cellC: "cells (corrected_frame n_samples n_genes ?F) ! i ! j
                 = Some (?ys ! i - fitted (RIN n_samples) ?F i j)" if "i < n_samples" for i
    using that assms(6) by (simp add: corrected_frame_def)
  have "(\<forall>i<n_samples. cells (corrected_frame n_samples n_genes ?F) ! i ! j = cells ?F ! i ! j)
        \<longleftrightarrow> (\<forall>i<n_samples. ols_intercept (RIN n_samples) ?ys
                              + ols_slope (RIN n_samples) ?ys * RIN n_samples ! i = 0)"
    using cellF cellC by (auto simp: fitted_def simp del: RIN_nth)
  also have "\<dots> \<longleftrightarrow> mean ?ys = 0 \<and>
                sum_list (map2 (\<lambda>x y. (x - mean (RIN n_samples)) * (y - mean ?ys))
                           (RIN n_samples) ?ys) = 0"
    using assms(5) by (intro fitted_zero_iff) (simp_all add: rows)
  finally show ?thesis
    unfolding regress_out_rin_run[OF assms(1,2,3,4) ns ng assms(7)]
    using assms(7) by (simp add: nth_append)
qed

theorem regression_unchanged_iff_witness:
  "(let F = \<lparr>index = samples 2, columns = genes 1, cells = [[Some 1], [Some 3]]\<rparr>;
        W = \<lparr>rng = \<lambda>i. 0, heap = [F]\<rparr>
    in index (heap W ! 0) = samples 2 \<and> columns (heap W ! 0) = genes 1 \<and>
       rectangular (heap W ! 0) \<and> \<not> has_nan (heap W ! 0) \<and>
       (2::nat) \<le> 2 \<and> (0::nat) < 1 \<and> 0 < length (heap W) \<and>
       (\<exists>rin_dependent_data rin_corrected_data w'.
          regress_out_rin 0 2 1 W = (Inr (rin_dependent_data, rin_corrected_data), w') \<and>
          \<not> (\<forall>i<2. cells (heap w' ! rin_corrected_data) ! i ! 0 = cells (heap W ! 0) ! i ! 0)))"
proof -
  define F where "F = \<lparr>index = samples 2, columns = genes 1, cells = [[Some 1], [Some 3]]\<rparr>"
  define W where "W = \<lparr>rng = \<lambda>i. 0, heap = [F]\<rparr>"
  have h: "index (heap W ! 0) = samples 2" "columns (heap W ! 0) = genes 1"
    "rectangular (heap W ! 0)" "\<not> has_nan (heap W ! 0)"
    "(2::nat) \<le> 2" "(0::nat) < 1" "0 < length (heap W)"
    by (simp_all add: W_def F_def rectangular_def has_nan_def)
  have m: "mean (response (heap W ! 0) 0) \<noteq> 0"
    by (simp add: W_def F_def response_def column_def mean_def)
  from regression_unchanged_iff[OF h] m h
  show ?thesis unfolding Let_def F_def[symmetric] W_def[symmetric] by auto
qed

lemma standardize_rectangular: "rectangular S \<Longrightarrow> rectangular (standardize S)"
  by (simp add: rectangular_def standardize_def div_series_def sub_series_def list_all_length)

lemma data_plus_zero_noise:
  "df_binop fadd \<lparr>index = samples ns, columns = genes ng, cells = block_design g ns ng\<rparr>
     (zero_noise ns ng) = \<lparr>index = samples ns, columns = genes ng, cells = block_design g ns ng\<rparr>"
proof -
  let ?D = "\<lparr>index = samples ns, columns = genes ng, cells = block_design g ns ng\<rparr>"
  have rD: "rectangular ?D"
    by (simp add: rectangular_def block_design_def list_all_length)
  have rZ: "rectangular (zero_noise ns ng)"
    by (simp add: rectangular_def zero_noise_def list_all_length)
  have "df_binop fadd ?D (zero_noise ns ng) =
           \<lparr>index = index ?D, columns = columns ?D,
            cells = map (\<lambda>i. map (\<lambda>j. fadd (cells ?D ! i ! j) (cells (zero_noise ns ng) ! i ! j))
                       [0..<length (columns ?D)]) [0..<length (index ?D)]\<rparr>"
    by (rule df_binop_aligned) (simp_all add: rD rZ, simp_all add: zero_noise_def)
  also have "\<dots> = ?D"
    by (simp add: zero_noise_def block_design_def fadd_def)
  finally show ?thesis .
qed

lemma skip_injection_run_eq:
  assumes "\<not> has_nan (standardize \<lparr>index = samples ns, columns = genes ng,
                                     cells = block_design (ss sd) ns ng\<rparr>)"
    and "1 \<le> ns" "1 \<le> ng"
  shows "skip_injection_run ss sd ns ng w =
           Inr (standardize \<lparr>index = samples ns, columns = genes ng,
                             cells = block_design (ss sd) ns ng\<rparr>,
                corrected_frame ns ng
                  (standardize \<lparr>index = samples ns, columns = genes ng,
                                cells = block_design (ss sd) ns ng\<rparr>))"
proof -
  let ?D = "\<lparr>index = samples ns, columns = genes ng, cells = block_design (ss sd) ns ng\<rparr>"
  have rD: "rectangular ?D"
    by (simp add: rectangular_def block_design_def list_all_length)
  show ?thesis
    using assms standardize_rectangular[OF rD]
    by (simp add: skip_injection_run_def generate_run alloc_def add_rin_noise_run Let_def
        nth_append data_plus_zero_noise regress_out_rin_run)
qed

lemma upt_4: "[0..<4] = [0, 1, 2, 3]"
  by (simp add: upt_rec)

lemma example_input:
  "standardize \<lparr>index = samples 4, columns = genes 2,
                cells = block_design (\<lambda>i. if i = 4 then 2 else if i = 5 then - 2
                                       else if i = 6 then - 2 else if i = 7 then 2 else 0) 4 2\<rparr>
   = \<lparr>index = samples 4, columns = genes 2,
      cells = [[Some (1 / 2), Some (- 1 / 2)], [Some (1 / 2), Some (- 1 / 2)],
               [Some (1 / 2), Some (- 1 / 2)], [Some (- 3 / 2), Some (3 / 2)]]\<rparr>"
  by (simp add: standardize_def div_series_def sub_series_def mapi2_def df_mean_def df_std_def
      column_def col_mean_def col_std_def present_def mean_def block_design_def quadrant_def
      fdiv_def fsub_def Let_def upt_4 upt_2)

lemma RIN_4: "RIN 4 = [1 / 2, 3 / 2, 5 / 2, 7 / 2]"
  by (simp add: RIN_def upt_4)

text \<open>
  Claim C1 as stated fails. With four samples, two genes, draws \<open>0, 0, 0, 0, 2, -2, -2, 2\<close> and
  a noise frame of zeros, the re-standardised matrix has \<open>1/2\<close> in its first cell: the first gene
  is \<open>1/2, 1/2, 1/2, -3/2\<close> over the samples, which falls with RIN. The regression fits the
  line \<open>6/5 - 3/5 * RIN\<close> to it, and the corrected matrix has \<open>-2/5\<close> in its first cell.
\<close>

theorem regression_changes_clean_input:
  "(case skip_injection_run
           (\<lambda>sd i. if i = 4 then 2 else if i = 5 then - 2
                    else if i = 6 then - 2 else if i = 7 then 2 else 0)
           2016 4 2 \<lparr>rng = \<lambda>i. 0, heap = []\<rparr> of
      Inl e \<Rightarrow> False
    | Inr (input, corrected) \<Rightarrow>
        cells input ! 0 ! 0 = Some (1 / 2) \<and> cells corrected ! 0 ! 0 = Some (- 2 / 5))"
proof -
  let ?g = "\<lambda>i::nat. if i = 4 then 2 else if i = 5 then - 2
                    else if i = 6 then - 2 else if i = 7 then (2::real) else 0"
  let ?F = "standardize \<lparr>index = samples 4, columns = genes 2, cells = block_design ?g 4 2\<rparr>"
  have nn: "\<not> has_nan ?F"
    by (simp add: example_input has_nan_def)
  have run: "skip_injection_run (\<lambda>sd. ?g) 2016 4 2 \<lparr>rng = \<lambda>i. 0, heap = []\<rparr>
               = Inr (?F, corrected_frame 4 2 ?F)"
    using nn by (rule skip_injection_run_eq) simp_all
  have resp: "response ?F 0 = [1 / 2, 1 / 2, 1 / 2, - 3 / 2]"
    by (simp add: example_input response_def column_def)
  have fit: "fitted (RIN 4) ?F 0 0 = 9 / 10"
    unfolding fitted_def resp
    by (simp add: RIN_4 ols_intercept_def ols_slope_def mean_def Let_def power2_eq_square)
  have "cells (corrected_frame 4 2 ?F) ! 0 ! 0 = Some (- 2 / 5)"
    by (simp add: corrected_frame_def resp fit)
  moreover have "cells ?F ! 0 ! 0 = Some (1 / 2)"
    by (simp add: example_input)
  ultimately show ?thesis unfolding run by simp
qed

subsection \<open>Every stage returns new frames\<close>

text \<open>
  Claim C9. Every stage makes new frames and leaves the earlier ones as they were. Each of the
  batch-noise block, the construction of the noise frame, the covariate-noise block with its
  re-standardisation and the regression block only extends the store: every frame that
  existed before the stage is unchanged, in particular the objects bound to \<^verbatim>\<open>data\<close> and
  to \<^verbatim>\<open>rin_batchy_data\<close>, also when the stage ends in an exception. Every frame a stage
  returns is an object that did not exist before the stage. The batch-noise block returns
  one for at least two genes, the noise frame is built for at least two genes and one
  sample, the covariate-noise block always returns one, and the regression block returns two
  for an input without NaN that is labelled by the samples and genes.
\<close>

theorem stages_make_new_frames:
  assumes "data < length (heap w)" and "rin_batchy_data < length (heap w)"
  shows
    "(let r = add_technical_noise data n_samples n_genes w
      in take (length (heap w)) (heap (snd r)) = heap w \<and>
         heap (snd r) ! data = heap w ! data \<and>
         (2 \<le> n_genes \<longrightarrow> fst r = Inr (length (heap w))) \<and>
         (case fst r of
            Inl e \<Rightarrow> True
          | Inr noisy_data \<Rightarrow>
              length (heap w) \<le> noisy_data \<and> noisy_data < length (heap (snd r)))) \<and>
     (let r = make_rin_noise n_samples n_genes w
      in take (length (heap w)) (heap (snd r)) = heap w \<and>
         heap (snd r) ! data = heap w ! data \<and>
         (2 \<le> n_genes \<and> 1 \<le> n_samples \<longrightarrow> fst r = Inr (length (heap w) + 2)) \<and>
         (case fst r of
            Inl e \<Rightarrow> True
          | Inr rin_noise \<Rightarrow>
              length (heap w) \<le> rin_noise \<and> rin_noise < length (heap (snd r)))) \<and>
     (let r = add_rin_noise data rin_noise w
      in take (length (heap w)) (heap (snd r)) = heap w \<and>
         heap (snd r) ! data = heap w ! data \<and>
         length (heap w) \<le> fst r \<and> fst r < length (heap (snd r))) \<and>
     (let r = regress_out_rin rin_batchy_data n_samples n_genes w
      in take (length (heap w)) (heap (snd r)) = heap w \<and>
         heap (snd r) ! rin_batchy_data = heap w ! rin_batchy_data \<and>
         heap (snd r) ! data = heap w ! data \<and>
         (index (heap w ! rin_batchy_data) = samples n_samples \<and>
          columns (heap w ! rin_batchy_data) = genes n_genes \<and>
          rectangular (heap w ! rin_batchy_data) \<and> \<not> has_nan (heap w ! rin_batchy_data) \<and>
          1 \<le> n_samples \<and> 1 \<le> n_genes \<longrightarrow>
            fst r = Inr (length (heap w), length (heap w) + 1)) \<and>
         (case fst r of
            Inl e \<Rightarrow> True
          | Inr (rin_dependent_data, rin_corrected_data) \<Rightarrow>
              length (heap w) \<le> rin_dependent_data \<and>
              rin_dependent_data < rin_corrected_data \<and>
              rin_corrected_data < length (heap (snd r))))"
proof -
  have t: "2 \<le> n_genes \<longrightarrow>
             fst (add_technical_noise data n_samples n_genes w) = Inr (length (heap w))"
    by (simp add: add_technical_noise_run)
  have m: "2 \<le> n_genes \<and> 1 \<le> n_samples \<longrightarrow>
             fst (make_rin_noise n_samples n_genes w) = Inr (length (heap w) + 2)"
    by (simp add: make_rin_noise_run)
  have r: "index (heap w ! rin_batchy_data) = samples n_samples \<and>
          columns (heap w ! rin_batchy_data) = genes n_genes \<and>
          rectangular (heap w ! rin_batchy_data) \<and> \<not> has_nan (heap w ! rin_batchy_data) \<and>
          1 \<le> n_samples \<and> 1 \<le> n_genes \<longrightarrow>
            fst (regress_out_rin rin_batchy_data n_samples n_genes w)
              = Inr (length (heap w), length (heap w) + 1)"
    using assms(2) by (simp add: regress_out_rin_run)
  show ?thesis
    unfolding Let_def
    using assms t m r
      add_technical_noise_fresh[where data = data and ns = n_samples and ng = n_genes and w = w]
      make_rin_noise_fresh[where ns = n_samples and ng = n_genes and w = w]
      add_rin_noise_fresh[where w = w and data = data and rin_noise = rin_noise]
      regress_out_rin_fresh[where rb = rin_batchy_data and ns = n_samples and ng = n_genes and w = w]
    by (simp only: add_technical_noise_extends make_rin_noise_extends add_rin_noise_extends
        regress_out_rin_extends add_technical_noise_frame make_rin_noise_frame
        add_rin_noise_frame regress_out_rin_frame simp_thms)
qed

theorem stages_make_new_frames_witness:
  "(let D = \<lparr>index = samples 2, columns = genes 3,
             cells = [[Some 1, Some 2, Some 3], [Some 4, Some 5, Some 6]]\<rparr>;
        B = \<lparr>index = samples 2, columns = genes 3,
             cells = [[Some (-1), Some 1, Some 0], [Some 1, Some (-1), Some 0]]\<rparr>;
        W = \<lparr>rng = \<lambda>i. 1, heap = [D, rin_noise_frame 2 3, B]\<rparr>
    in (0::nat) < length (heap W) \<and> (2::nat) < length (heap W) \<and>
       (2::nat) \<le> 3 \<and> (1::nat) \<le> 2 \<and>
       index (heap W ! 2) = samples 2 \<and> columns (heap W ! 2) = genes 3 \<and>
       rectangular (heap W ! 2) \<and> \<not> has_nan (heap W ! 2) \<and>
       fst (add_technical_noise 0 2 3 W) = Inr 3 \<and>
       heap (snd (add_technical_noise 0 2 3 W)) ! 0 = D \<and>
       cells (heap (snd (add_technical_noise 0 2 3 W)) ! 3) ! 0 ! 0 = Some 3 \<and>
       fst (make_rin_noise 2 3 W) = Inr 5 \<and>
       heap (snd (make_rin_noise 2 3 W)) ! 0 = D \<and>
       fst (add_rin_noise 0 1 W) = 5 \<and>
       heap (snd (add_rin_noise 0 1 W)) ! 0 = D \<and>
       fst (regress_out_rin 2 2 3 W) = Inr (3, 4) \<and>
       heap (snd (regress_out_rin 2 2 3 W)) ! 2 = B)"
proof -
  define D where "D = \<lparr>index = samples 2, columns = genes 3,
             cells = [[Some 1, Some 2, Some 3], [Some 4, Some 5, Some (6::real)]]\<rparr>"
  define B where "B = \<lparr>index = samples 2, columns = genes 3,
             cells = [[Some (-1), Some 1, Some 0], [Some 1, Some (-1), Some (0::real)]]\<rparr>"
  define W where "W = \<lparr>rng = \<lambda>i. 1, heap = [D, rin_noise_frame 2 3, B]\<rparr>"
  have len: "length (heap W) = 3" and h0: "heap W ! 0 = D" and h2: "heap W ! 2 = B"
    and rng: "rng W = (\<lambda>i. 1)"
    by (simp_all add: W_def)
  have l0: "0 < length (heap W)" and l2: "2 < length (heap W)" by (simp_all add: len)
  have B: "index (heap W ! 2) = samples 2" "columns (heap W ! 2) = genes 3"
    "rectangular (heap W ! 2)" "\<not> has_nan (heap W ! 2)"
    by (simp_all add: h2 B_def rectangular_def has_nan_def)
  note frames = stages_make_new_frames[OF l0 l2, of 2 3 1, unfolded Let_def]
  have keep: "heap (snd (add_technical_noise 0 2 3 W)) ! 0 = D"
    "heap (snd (make_rin_noise 2 3 W)) ! 0 = D"
    "heap (snd (add_rin_noise 0 1 W)) ! 0 = D"
    "heap (snd (regress_out_rin 2 2 3 W)) ! 2 = B"
    using frames by (simp_all add: h0 h2)
  have tn: "fst (add_technical_noise 0 2 3 W) = Inr 3"
    and rn: "fst (make_rin_noise 2 3 W) = Inr 5"
    and rg: "fst (regress_out_rin 2 2 3 W) = Inr (3, 4)"
    using frames B by (simp_all add: len)
  have b1: "sample_label 0 \<in> set (batch1_samples 2)" by simp
  have b2: "sample_label 0 \<notin> set (batch2_samples D 2)"
    using sample_in_batch2'[of D 2 0] by (simp add: D_def)
  have cell: "cells (heap (snd (add_technical_noise 0 2 3 W)) ! 3) ! 0 ! 0 = Some 3"
    using b1 b2 unfolding D_def
    by (simp add: add_technical_noise_run len h0 rng nth_append ix_iadd_cell D_def fadd_def)
  have ar: "fst (add_rin_noise 0 1 W) = 5"
    by (simp add: add_rin_noise_run len)
  show ?thesis
    unfolding Let_def D_def[symmetric] B_def[symmetric] W_def[symmetric]
    using l0 l2 B keep tn cell rn ar rg by simp
qed

subsection \<open>The combat wrapper\<close>

lemma format_formula_name:
  "take 2 (format_formula (Some k)) = ''~ ''" "drop 2 (format_formula (Some k)) = k"
  by (simp_all add: format_formula_def)

lemma patsy_dmatrix_unbound:
  assumes "is_identifier k" "k \<notin> set python_keywords"
    and "map_of (m_columns md) k = None" "scope k = None"
  shows "patsy_dmatrix other scope (format_formula (Some k)) md = Inl (PatsyError k)"
  using assms by (simp add: patsy_dmatrix_def format_formula_name)

lemma patsy_dmatrix_column:
  assumes "is_identifier k" "k \<notin> set python_keywords"
    and "map_of (m_columns md) k = Some vs" "length vs = length (m_index md)" "levels vs \<noteq> []"
  shows "patsy_dmatrix other scope (format_formula (Some k)) md
           = Inr (treatment_design k (m_index md) vs)"
  using assms by (simp add: patsy_dmatrix_def format_formula_name)

lemma patsy_dmatrix_scope:
  assumes "is_identifier k" "k \<notin> set python_keywords"
    and "map_of (m_columns md) k = None" "scope k = Some (Labels vs)"
    and "length vs = length (m_index md)" "levels vs \<noteq> []"
  shows "patsy_dmatrix other scope (format_formula (Some k)) md
           = Inr (treatment_design k (m_index md) vs)"
  using assms by (simp add: patsy_dmatrix_def format_formula_name)

lemma treatment_design_columns:
  "levels vs \<noteq> [] \<Longrightarrow> length (columns (treatment_design k idx vs)) = length (levels vs)"
  by (simp add: treatment_design_def Let_def)

text \<open>
  Claim C3, amended. The wrapper validates nothing itself: for a \<^verbatim>\<open>keep_constant\<close> other
  than \<^verbatim>\<open>None\<close> it asks \<^verbatim>\<open>patsy.dmatrix\<close> for the design. For a single name:
  \<^item> if the name is neither a column of the metadata nor bound in the scope of the call,
    the construction of the design raises \<^verbatim>\<open>PatsyError\<close>, and so does the call, whatever
    \<^verbatim>\<open>combat\<close> is, so before \<^verbatim>\<open>combat\<close> is invoked;
  \<^item> if the name is a column of the metadata with at least one label, the design is the
    treatment coding of the column, with as many columns as the column has levels, and
    \<^verbatim>\<open>combat\<close> is invoked with it (once \<^verbatim>\<open>metadata[batch]\<close> is found); the outcome of
    the call is then \<^verbatim>\<open>combat\<close>'s.
\<close>

theorem preserve_variable_design:
  assumes "is_identifier k" and "k \<notin> set python_keywords"
  shows "(map_of (m_columns md) k = None \<and> scope k = None \<longrightarrow>
            design_model (patsy_dmatrix other scope) md (Some k) = Inl (PatsyError k) \<and>
            remove_batch_effects_with_combat (patsy_dmatrix other scope) combat md noisy_data
              batch (Some k) = Inl (PatsyError k)) \<and>
         (\<forall>vs. map_of (m_columns md) k = Some vs \<and> length vs = length (m_index md) \<and>
               levels vs \<noteq> [] \<longrightarrow>
            design_model (patsy_dmatrix other scope) md (Some k)
              = Inr (Some (treatment_design k (m_index md) vs)) \<and>
            length (columns (treatment_design k (m_index md) vs)) = length (levels vs) \<and>
            remove_batch_effects_with_combat (patsy_dmatrix other scope) combat md noisy_data
              batch (Some k)
              = (case getcol md batch of
                   Inl e \<Rightarrow> Inl e
                 | Inr labels \<Rightarrow>
                     (case combat (transpose_df noisy_data) labels
                             (Some (treatment_design k (m_index md) vs)) of
                        Inl e \<Rightarrow> Inl e
                      | Inr corrected_data \<Rightarrow> Inr (transpose_df corrected_data))))"
proof (intro conjI impI allI)
  assume a: "map_of (m_columns md) k = None \<and> scope k = None"
  show d: "design_model (patsy_dmatrix other scope) md (Some k) = Inl (PatsyError k)"
    using patsy_dmatrix_unbound[OF assms, of md scope other] a
    by (simp add: design_model_def)
  show "remove_batch_effects_with_combat (patsy_dmatrix other scope) combat md noisy_data
              batch (Some k) = Inl (PatsyError k)"
    by (simp add: remove_batch_effects_with_combat_def d)
next
  fix vs
  assume a: "map_of (m_columns md) k = Some vs \<and> length vs = length (m_index md) \<and>
               levels vs \<noteq> []"
  show d: "design_model (patsy_dmatrix other scope) md (Some k)
              = Inr (Some (treatment_design k (m_index md) vs))"
    using patsy_dmatrix_column[OF assms, of md vs other scope] a
    by (simp add: design_model_def)
  show "length (columns (treatment_design k (m_index md) vs)) = length (levels vs)"
    using a by (simp add: treatment_design_columns)
  show "remove_batch_effects_with_combat (patsy_dmatrix other scope) combat md noisy_data
              batch (Some k)
              = (case getcol md batch of
                   Inl e \<Rightarrow> Inl e
                 | Inr labels \<Rightarrow>
                     (case combat (transpose_df noisy_data) labels
                             (Some (treatment_design k (m_index md) vs)) of
                        Inl e \<Rightarrow> Inl e
                      | Inr corrected_data \<Rightarrow> Inr (transpose_df corrected_data)))"
    by (simp add: remove_batch_effects_with_combat_def d)
qed

lemma ident_Tissue: "is_identifier ''Tissue''" "''Tissue'' \<notin> set python_keywords"
  by (simp_all add: is_identifier_def ident_char_def python_keywords_def)

lemma ident_Mouse: "is_identifier ''Mouse''" "''Mouse'' \<notin> set python_keywords"
  by (simp_all add: is_identifier_def ident_char_def python_keywords_def)

lemma ident_batches: "is_identifier ''batches''" "''batches'' \<notin> set python_keywords"
  by (simp_all add: is_identifier_def ident_char_def python_keywords_def)

lemma samples_4: "samples 4 = [''Sample_01'', ''Sample_02'', ''Sample_03'', ''Sample_04'']"
  by (simp add: samples_def sample_label_def upt_4) code_simp

theorem preserve_variable_design_witness:
  "(let md = \<lparr>m_index = samples 4,
               m_columns =
                 [(''Batch'', [Some ''Batch_01'', Some ''Batch_02'', Some ''Batch_01'', Some ''Batch_02'']),
                  (''Mouse'', [Some ''Mouse_01'', Some ''Mouse_01'', Some ''Mouse_02'', Some ''Mouse_02''])]\<rparr>;
        noisy_data = \<lparr>index = samples 4, columns = genes 1,
                       cells = [[Some 1], [Some 2], [Some 3], [Some 4]]\<rparr>;
        dmatrix = patsy_dmatrix (\<lambda>f m. Inr \<lparr>index = [], columns = [], cells = []\<rparr>) Map.empty
    in is_identifier ''Tissue'' \<and> ''Tissue'' \<notin> set python_keywords \<and>
       map_of (m_columns md) ''Tissue'' = None \<and>
       remove_batch_effects_with_combat dmatrix (\<lambda>d b m. Inr d) md noisy_data ''Batch''
         (Some ''Tissue'') = Inl (PatsyError ''Tissue'') \<and>
       is_identifier ''Mouse'' \<and> ''Mouse'' \<notin> set python_keywords \<and>
       design_model dmatrix md (Some ''Mouse'')
         = Inr (Some \<lparr>index = samples 4, columns = [''Intercept'', ''Mouse[T.Mouse_02]''],
                       cells = [[Some 1, Some 0], [Some 1, Some 0],
                                [Some 1, Some 1], [Some 1, Some 1]]\<rparr>) \<and>
       remove_batch_effects_with_combat dmatrix (\<lambda>d b m. Inr d) md noisy_data ''Batch''
         (Some ''Mouse'') = Inr noisy_data)"
proof -
  define md where "md = \<lparr>m_index = samples 4,
               m_columns =
                 [(''Batch'', [Some ''Batch_01'', Some ''Batch_02'', Some ''Batch_01'', Some ''Batch_02'']),
                  (''Mouse'', [Some ''Mouse_01'', Some ''Mouse_01'', Some ''Mouse_02'', Some ''Mouse_02''])]\<rparr>"
  define noisy_data where "noisy_data = \<lparr>index = samples 4, columns = genes 1,
                       cells = [[Some 1], [Some 2], [Some 3], [Some (4::real)]]\<rparr>"
  define other where
    "other = (\<lambda>(f::string) (m::metaframe). Inr \<lparr>index = [], columns = [], cells = []\<rparr> :: pyerr + dataframe)"
  define combat where
    "combat = (\<lambda>(d::dataframe) (b::string option list) (m::dataframe option). Inr d :: pyerr + dataframe)"
  let ?ms = "[Some ''Mouse_01'', Some ''Mouse_01'', Some ''Mouse_02'', Some ''Mouse_02'']"
  have t: "map_of (m_columns md) ''Tissue'' = None" and e: "(Map.empty :: scope) ''Tissue'' = None"
    by (simp_all add: md_def)
  have m: "map_of (m_columns md) ''Mouse'' = Some ?ms" "length ?ms = length (m_index md)"
    "levels ?ms \<noteq> []"
    by (simp_all add: md_def levels_def)
  note thm1 = preserve_variable_design[OF ident_Tissue, where md = md and scope = Map.empty
      and other = other and combat = combat and noisy_data = noisy_data and batch = "''Batch''"]
  note thm2 = preserve_variable_design[OF ident_Mouse, where md = md and scope = Map.empty
      and other = other and combat = combat and noisy_data = noisy_data and batch = "''Batch''"]
  have r1: "remove_batch_effects_with_combat (patsy_dmatrix other Map.empty) combat md noisy_data
              ''Batch'' (Some ''Tissue'') = Inl (PatsyError ''Tissue'')"
    using thm1 t e by blast
  from thm2 m have d2: "design_model (patsy_dmatrix other Map.empty) md (Some ''Mouse'')
              = Inr (Some (treatment_design ''Mouse'' (m_index md) ?ms))"
    and r2: "remove_batch_effects_with_combat (patsy_dmatrix other Map.empty) combat md noisy_data
              ''Batch'' (Some ''Mouse'')
              = (case getcol md ''Batch'' of
                   Inl e \<Rightarrow> Inl e
                 | Inr labels \<Rightarrow>
                     (case combat (transpose_df noisy_data) labels
                             (Some (treatment_design ''Mouse'' (m_index md) ?ms)) of
                        Inl e \<Rightarrow> Inl e
                      | Inr corrected_data \<Rightarrow> Inr (transpose_df corrected_data)))"
    by blast+
  have td: "treatment_design ''Mouse'' (m_index md) ?ms
              = \<lparr>index = samples 4, columns = [''Intercept'', ''Mouse[T.Mouse_02]''],
                       cells = [[Some 1, Some 0], [Some 1, Some 0],
                                [Some 1, Some 1], [Some 1, Some 1]]\<rparr>"
    by (simp add: treatment_design_def levels_def md_def samples_4)
  have tt: "transpose_df (transpose_df noisy_data) = noisy_data"
    by (simp add: transpose_df_def noisy_data_def)
  have r2': "remove_batch_effects_with_combat (patsy_dmatrix other Map.empty) combat md noisy_data
              ''Batch'' (Some ''Mouse'') = Inr noisy_data"
    unfolding r2 by (simp add: getcol_def md_def combat_def tt)
  show ?thesis
    unfolding Let_def md_def[symmetric] noisy_data_def[symmetric] other_def[symmetric]
      combat_def[symmetric]
    using ident_Tissue ident_Mouse t r1 d2 r2' by (simp add: td)
qed

text \<open>
  Claim C3 as stated fails for a constant variable, and for a name that is not in the
  metadata but bound in the notebook. In a metadata frame whose four samples come from the
  same mouse, \<^verbatim>\<open>Mouse\<close> has a single level: its design is the intercept alone, the
  construction of the design model does not fail, and an error of the call is one raised
  inside \<^verbatim>\<open>combat\<close> (here a stand-in that raises \<^verbatim>\<open>ValueError\<close>). The name
  \<^verbatim>\<open>batches\<close> is no column of the metadata, but the notebook binds it to the series of
  batch labels, and the design is built from that series.
\<close>

theorem unchecked_preserve_variables:
  "(let md = \<lparr>m_index = samples 4,
               m_columns =
                 [(''Batch'', [Some ''Batch_01'', Some ''Batch_02'', Some ''Batch_01'', Some ''Batch_02'']),
                  (''Mouse'', [Some ''Mouse_01'', Some ''Mouse_01'', Some ''Mouse_01'', Some ''Mouse_01''])]\<rparr>;
        noisy_data = \<lparr>index = samples 4, columns = genes 1,
                       cells = [[Some 1], [Some 2], [Some 3], [Some 4]]\<rparr>;
        scope = [''batches'' \<mapsto>
                   Labels [Some ''Batch_01'', Some ''Batch_02'', Some ''Batch_01'', Some ''Batch_02'']];
        dmatrix = patsy_dmatrix (\<lambda>f m. Inl (PatsyError f)) scope
    in design_model dmatrix md (Some ''Mouse'')
         = Inr (Some \<lparr>index = samples 4, columns = [''Intercept''],
                       cells = [[Some 1], [Some 1], [Some 1], [Some 1]]\<rparr>) \<and>
       remove_batch_effects_with_combat dmatrix (\<lambda>d b m. Inl ValueError) md noisy_data ''Batch''
         (Some ''Mouse'') = Inl ValueError \<and>
       map_of (m_columns md) ''batches'' = None \<and>
       design_model dmatrix md (Some ''batches'')
         = Inr (Some \<lparr>index = samples 4, columns = [''Intercept'', ''batches[T.Batch_02]''],
                       cells = [[Some 1, Some 0], [Some 1, Some 1],
                                [Some 1, Some 0], [Some 1, Some 1]]\<rparr>))"
proof -
  define md where "md = \<lparr>m_index = samples 4,
               m_columns =
                 [(''Batch'', [Some ''Batch_01'', Some ''Batch_02'', Some ''Batch_01'', Some ''Batch_02'']),
                  (''Mouse'', [Some ''Mouse_01'', Some ''Mouse_01'', Some ''Mouse_01'', Some ''Mouse_01''])]\<rparr>"
  define noisy_data where "noisy_data = \<lparr>index = samples 4, columns = genes 1,
                       cells = [[Some 1], [Some 2], [Some 3], [Some (4::real)]]\<rparr>"
  define scope where "scope = [''batches'' \<mapsto>
                   Labels [Some ''Batch_01'', Some ''Batch_02'', Some ''Batch_01'', Some ''Batch_02'']]"
  define other where "other = (\<lambda>(f::string) (m::metaframe). Inl (PatsyError f) :: pyerr + dataframe)"
  let ?ms = "[Some ''Mouse_01'', Some ''Mouse_01'', Some ''Mouse_01'', Some ''Mouse_01'']"
  let ?bs = "[Some ''Batch_01'', Some ''Batch_02'', Some ''Batch_01'', Some ''Batch_02'']"
  have pm: "patsy_dmatrix other scope (format_formula (Some ''Mouse'')) md
              = Inr (treatment_design ''Mouse'' (m_index md) ?ms)"
    by (rule patsy_dmatrix_column[OF ident_Mouse]) (simp_all add: md_def levels_def)
  have nb: "map_of (m_columns md) ''batches'' = None" by (simp add: md_def)
  have pb: "patsy_dmatrix other scope (format_formula (Some ''batches'')) md
              = Inr (treatment_design ''batches'' (m_index md) ?bs)"
    by (rule patsy_dmatrix_scope[OF ident_batches nb]) (simp_all add: md_def scope_def levels_def)
  have tm: "treatment_design ''Mouse'' (m_index md) ?ms
              = \<lparr>index = samples 4, columns = [''Intercept''],
                       cells = [[Some 1], [Some 1], [Some 1], [Some 1]]\<rparr>"
    by (simp add: treatment_design_def levels_def md_def samples_4)
  have tb: "treatment_design ''batches'' (m_index md) ?bs
              = \<lparr>index = samples 4, columns = [''Intercept'', ''batches[T.Batch_02]''],
                       cells = [[Some 1, Some 0], [Some 1, Some 1],
                                [Some 1, Some 0], [Some 1, Some 1]]\<rparr>"
    by (simp add: treatment_design_def levels_def md_def samples_4)
  have dm: "design_model (patsy_dmatrix other scope) md (Some ''Mouse'')
              = Inr (Some \<lparr>index = samples 4, columns = [''Intercept''],
                       cells = [[Some 1], [Some 1], [Some 1], [Some 1]]\<rparr>)"
    by (simp add: design_model_def pm tm)
  have db: "design_model (patsy_dmatrix other scope) md (Some ''batches'')
              = Inr (Some \<lparr>index = samples 4, columns = [''Intercept'', ''batches[T.Batch_02]''],
                       cells = [[Some 1, Some 0], [Some 1, Some 1],
                                [Some 1, Some 0], [Some 1, Some 1]]\<rparr>)"
    by (simp add: design_model_def pb tb)
  have rm: "remove_batch_effects_with_combat (patsy_dmatrix other scope) (\<lambda>d b m. Inl ValueError)
              md noisy_data ''Batch'' (Some ''Mouse'') = Inl ValueError"
    by (simp add: remove_batch_effects_with_combat_def dm) (simp add: getcol_def md_def)
  show ?thesis
    unfolding Let_def md_def[symmetric] noisy_data_def[symmetric] scope_def[symmetric]
      other_def[symmetric]
    using dm rm nb db by simp
qed

end
